theory Spec2Isabelle
  imports Complex_Main "HOL-Library.AList" "HOL-Library.Char_ord" "HOL-Library.List_Lexorder"
begin

section \<open>Python values and exceptions\<close>

text \<open>
  The exceptions the source can raise, as values. \<open>KeyError\<close> is what a lookup of an
  absent variable in \<^verbatim>\<open>nc.variables\<close> raises (the specification calls it
  MissingVariable); \<open>AssertionError\<close> is what the length checks of \<^verbatim>\<open>writer_0_0\<close>
  raise (ShapeMismatch in the specification); \<open>ValueError\<close> is what
  \<^verbatim>\<open>num2date\<close> raises on a units string it cannot read, and what
  \<^verbatim>\<open>max\<close>/\<^verbatim>\<open>min\<close> raise on an empty array.
\<close>

datatype error = KeyError string | IndexError | AttributeError | ValueError | AssertionError

text \<open>
  The Python values that occur as attribute values, feature ids and property values.
  Array elements are float64 or integers; they are modelled as real numbers (NaN and
  the infinities are outside the model).
\<close>

datatype pyval = PNone | PStr string | PInt int | PNum real | PMasked | PArr "real list"

text \<open>Sequencing of steps that can raise: the first exception ends the computation.\<close>

definition bindE :: "error + 'a \<Rightarrow> ('a \<Rightarrow> error + 'b) \<Rightarrow> error + 'b" where
  "bindE m f = (case m of Inl e \<Rightarrow> Inl e | Inr x \<Rightarrow> f x)"

text \<open>
  \<^verbatim>\<open>xs[::s]\<close>: the elements at positions 0, s, 2s, ... The source slices with
  the strides 1 and 200 only (a step of 0, which Python rejects, does not occur).
\<close>

fun every :: "nat \<Rightarrow> 'a list \<Rightarrow> 'a list" where
  "every s [] = []"
| "every s (x # xs) = x # every s (drop (s - 1) xs)"

text \<open>\<^verbatim>\<open>xs[0]\<close> and \<^verbatim>\<open>xs[-1]\<close>, which raise IndexError on an empty sequence.\<close>

definition first :: "'a list \<Rightarrow> error + 'a" where
  "first xs = (case xs of [] \<Rightarrow> Inl IndexError | x # _ \<Rightarrow> Inr x)"

definition final :: "'a list \<Rightarrow> error + 'a" where
  "final xs = (if xs = [] then Inl IndexError else Inr (last xs))"

text \<open>
  \<^verbatim>\<open>xs[bs]\<close> for a boolean array \<open>bs\<close>: the elements of \<open>xs\<close> where \<open>bs\<close> is true,
  in order; numpy raises IndexError when the lengths differ.
\<close>

definition bool_index :: "'a list \<Rightarrow> bool list \<Rightarrow> error + 'a list" where
  "bool_index xs bs =
     (if length bs \<noteq> length xs then Inl IndexError
      else Inr (map fst (filter snd (zip xs bs))))"

section \<open>A container opened for reading\<close>

text \<open>
  What the storage library reports for a variable of an open container: its shape,
  its elements in row-major order (as float64, which is what
  \<^verbatim>\<open>.data.astype(np.float64)\<close> yields), the mask of the masked array the library
  returns (true where the element is missing), and the \<^verbatim>\<open>units\<close> attribute when the
  variable has one.
\<close>

record variable =
  var_shape :: "nat list"
  var_data :: "real list"
  var_mask :: "bool list"
  var_units :: "string option"

record dataset =
  variables :: "string \<rightharpoonup> variable"
  ncattrs :: "(string \<times> pyval) list"

text \<open>The elements of one variable fill its shape.\<close>

definition wf_variable :: "variable \<Rightarrow> bool" where
  "wf_variable v \<longleftrightarrow>
     length (var_data v) = prod_list (var_shape v) \<and> length (var_mask v) = prod_list (var_shape v)"

text \<open>\<^verbatim>\<open>nc.variables[name]\<close>\<close>

definition getvar :: "dataset \<Rightarrow> string \<Rightarrow> error + variable" where
  "getvar nc name = (case variables nc name of None \<Rightarrow> Inl (KeyError name) | Some v \<Rightarrow> Inr v)"

text \<open>
  The rows of an array along its leading axis: row \<open>r\<close> is the block of
  \<open>prod_list (tl shape)\<close> consecutive elements starting at \<open>r * prod_list (tl shape)\<close>.
\<close>

definition rows :: "nat list \<Rightarrow> 'a list \<Rightarrow> 'a list list" where
  "rows shp xs =
     (let c = prod_list (tl shp) in map (\<lambda>r. take c (drop (r * c) xs)) [0..<hd shp])"

text \<open>
  \<^verbatim>\<open>a[::stride].flatten()\<close>: every \<open>stride\<close>-th row, concatenated. Slicing a
  zero-dimensional array raises IndexError.
\<close>

definition strided_flat :: "nat \<Rightarrow> nat list \<Rightarrow> 'a list \<Rightarrow> error + 'a list" where
  "strided_flat stride shp xs =
     (if shp = [] then Inl IndexError else Inr (concat (every stride (rows shp xs))))"

text \<open>
  \<^verbatim>\<open>a[::stride, i].flatten()\<close>: of every \<open>stride\<close>-th row, the entry at index \<open>i\<close> of
  the second axis. It raises IndexError when the array has fewer than two axes or
  \<open>i\<close> is not below the length of the second axis.
\<close>

definition strided_column :: "nat \<Rightarrow> nat \<Rightarrow> nat list \<Rightarrow> 'a list \<Rightarrow> error + 'a list" where
  "strided_column stride i shp xs =
     (if length shp < 2 \<or> \<not> i < shp ! 1 then Inl IndexError
      else let c = prod_list (drop 2 shp)
           in Inr (concat (map (\<lambda>row. take c (drop (i * c) row)) (every stride (rows shp xs)))))"

section \<open>The stride\<close>

text \<open>
  \<^verbatim>\<open>
  def get_stride(nc):
      if nc.variables["lon"].shape[0] > 1000:
          stride = 200
      else:
          stride = 1
      return stride
  \<close>
\<close>

definition get_stride :: "dataset \<Rightarrow> error + nat" where
  "get_stride nc =
     bindE (getvar nc ''lon'') (\<lambda>lon.
     bindE (first (var_shape lon)) (\<lambda>n.
     Inr (if n > 1000 then 200 else 1)))"

section \<open>Time coverage\<close>

text \<open>
  The calendar functions of the storage library and of the standard library are
  parameters of the model: \<open>num2date x units\<close> turns a number into a date (it raises
  ValueError on a units string it cannot read), \<open>date2num\<close> is its inverse for the
  fixed units of the writer, and \<open>strftime\<close> formats a date with the one format the
  source uses, \<^verbatim>\<open>'%Y-%m-%d %H:%M UTC'\<close>.
\<close>

record 'dt timelib =
  num2date :: "real \<Rightarrow> string \<Rightarrow> error + 'dt"
  date2num :: "'dt \<Rightarrow> real"
  strftime :: "'dt \<Rightarrow> string"

text \<open>
  \<^verbatim>\<open>
      a, b, tname = None, None, None
      if "ocean_time" in nc.variables:
          tname = "ocean_time"
      if "time" in nc.variables:
          tname = "time"
  \<close>
\<close>

definition resolve_tname :: "dataset \<Rightarrow> string option" where
  "resolve_tname nc =
     (let tname = None;
          tname = (if variables nc ''ocean_time'' \<noteq> None then Some ''ocean_time'' else tname);
          tname = (if variables nc ''time'' \<noteq> None then Some ''time'' else tname)
      in tname)"

fun mapE :: "('a \<Rightarrow> error + 'b) \<Rightarrow> 'a list \<Rightarrow> error + 'b list" where
  "mapE f [] = Inr []"
| "mapE f (x # xs) = bindE (f x) (\<lambda>y. bindE (mapE f xs) (\<lambda>ys. Inr (y # ys)))"

text \<open>
  \<^verbatim>\<open>num2date(v[::stride][k], units=v.units).strftime('%Y-%m-%d %H:%M UTC')\<close>
  for \<open>k\<close> the first or the last position (\<open>pick\<close>). The sample is taken first, then
  the units attribute is read, then the date is computed and formatted. For a variable
  of one axis the sample is a number. For a variable of more axes the sample is a row,
  \<^verbatim>\<open>num2date\<close> returns an array, and an array has no \<^verbatim>\<open>strftime\<close>.
\<close>

definition sample_time ::
  "'dt timelib \<Rightarrow> variable \<Rightarrow> (real list list \<Rightarrow> error + real list) \<Rightarrow> nat \<Rightarrow> error + pyval"
where
  "sample_time lib v pick stride =
     (if var_shape v = [] then Inl IndexError
      else
        bindE (pick (every stride (rows (var_shape v) (var_data v)))) (\<lambda>row.
        case var_units v of
          None \<Rightarrow> Inl AttributeError
        | Some u \<Rightarrow>
            if length (var_shape v) = 1 then
              bindE (first row) (\<lambda>x.
              bindE (num2date lib x u) (\<lambda>d.
              Inr (PStr (strftime lib d))))
            else
              bindE (mapE (\<lambda>x. num2date lib x u) row) (\<lambda>ds. Inl AttributeError)))"

text \<open>
  \<^verbatim>\<open>
  def get_time_coverage(nc, stride):
      ...
      if tname != None:
          a = num2date(nc.variables[tname][::stride][0], units=...).strftime(...)
          b = num2date(nc.variables[tname][::stride][-1], units=...).strftime(...)
      return a, b
  \<close>
\<close>

definition get_time_coverage :: "'dt timelib \<Rightarrow> dataset \<Rightarrow> nat \<Rightarrow> error + pyval \<times> pyval" where
  "get_time_coverage lib nc stride =
     (case resolve_tname nc of
        None \<Rightarrow> Inr (PNone, PNone)
      | Some tname \<Rightarrow>
          bindE (getvar nc tname) (\<lambda>v.
          bindE (sample_time lib v first stride) (\<lambda>a.
          bindE (sample_time lib v final stride) (\<lambda>b.
          Inr (a, b)))))"

section \<open>The projection to line features\<close>

record feature =
  fid :: pyval
  coordinates :: "(real \<times> real) list"
  properties :: "(string \<times> pyval) list"

datatype response = Feature feature | FeatureCollection "feature list"

text \<open>
  Modelled from the spec: the helper \<^verbatim>\<open>getncattrs\<close> is imported from a module of the
  repository that is not among the sources. The specification gives the reader an
  operation \<^verbatim>\<open>attributes() -> ordered mapping\<close> that returns the container's global
  attributes and never mutates the stored ones; the model returns them as a fresh
  association list.
\<close>

definition getncattrs :: "dataset \<Rightarrow> (string \<times> pyval) list" where
  "getncattrs nc = ncattrs nc"

text \<open>
  \<^verbatim>\<open>
      s = getncattrs(nc)
      if (not "time_coverage_start" in s) or (not "time_coverage_end" in s):
          s["time_coverage_start"], s["time_coverage_end"] = get_time_coverage(nc, stride)
  \<close>
\<close>

definition coverage_properties ::
  "'dt timelib \<Rightarrow> dataset \<Rightarrow> nat \<Rightarrow> error + (string \<times> pyval) list"
where
  "coverage_properties lib nc stride =
     (let s = getncattrs nc in
      if map_of s ''time_coverage_start'' = None \<or> map_of s ''time_coverage_end'' = None then
        bindE (get_time_coverage lib nc stride) (\<lambda>(a, b).
        Inr (AList.update ''time_coverage_end'' b (AList.update ''time_coverage_start'' a s)))
      else Inr s)"

text \<open>
  \<^verbatim>\<open>nc.variables["trajectory"][i]\<close>: an entry along the leading axis. For a variable of
  one axis it is a number, or the masked constant when the entry is masked.
\<close>

definition getitem :: "variable \<Rightarrow> nat \<Rightarrow> error + pyval" where
  "getitem v i =
     (if var_shape v = [] \<or> \<not> i < hd (var_shape v) then Inl IndexError
      else if length (var_shape v) = 1 then
        (if var_mask v ! i then Inr PMasked else Inr (PNum (var_data v ! i)))
      else Inr (PArr (rows (var_shape v) (var_data v) ! i)))"

text \<open>
  The body of the loop over the columns of a two-dimensional \<^verbatim>\<open>lon\<close>:
  \<^verbatim>\<open>
      lon = nc.variables["lon"][::stride,i].flatten()
      mask = lon.mask == False
      lon = lon.data.astype(np.float64)
      lat = nc.variables["lat"][::stride,i].flatten().data.astype(np.float64)
      subbool = lon[mask]<1000
      coords = zip(lon[mask][subbool], lat[mask][subbool])
      n = gj.LineString( coords )
      s = getncattrs(nc)
      if (not "time_coverage_start" in s) or (not "time_coverage_end" in s):
          s["time_coverage_start"], s["time_coverage_end"] = get_time_coverage(nc, stride)
      if "trajectory" in nc.variables:
          f.append( gj.Feature(id=nc.variables["trajectory"][i], geometry=n, properties=s) )
      else:
          f.append( gj.Feature(id=i, geometry=n, properties=s) )
  \<close>
\<close>

definition column_feature :: "'dt timelib \<Rightarrow> dataset \<Rightarrow> nat \<Rightarrow> nat \<Rightarrow> error + feature" where
  "column_feature lib nc stride i =
     bindE (getvar nc ''lon'') (\<lambda>lonv.
     bindE (strided_column stride i (var_shape lonv) (var_mask lonv)) (\<lambda>m.
     bindE (strided_column stride i (var_shape lonv) (var_data lonv)) (\<lambda>lon.
     let mask = map (\<lambda>b. b = False) m in
     bindE (getvar nc ''lat'') (\<lambda>latv.
     bindE (strided_column stride i (var_shape latv) (var_data latv)) (\<lambda>lat.
     bindE (bool_index lon mask) (\<lambda>lonm.
     let subbool = map (\<lambda>x. x < 1000) lonm in
     bindE (bool_index lonm subbool) (\<lambda>lons.
     bindE (bool_index lat mask) (\<lambda>latm.
     bindE (bool_index latm subbool) (\<lambda>lats.
     let coords = zip lons lats in
     bindE (coverage_properties lib nc stride) (\<lambda>s.
     case variables nc ''trajectory'' of
       Some tv \<Rightarrow>
         bindE (getitem tv i) (\<lambda>t. Inr \<lparr>fid = t, coordinates = coords, properties = s\<rparr>)
     | None \<Rightarrow> Inr \<lparr>fid = PInt (int i), coordinates = coords, properties = s\<rparr>))))))))))"

text \<open>
  The other branch, for a \<^verbatim>\<open>lon\<close> that is not two-dimensional:
  \<^verbatim>\<open>
      lon = nc.variables["lon"][::stride].flatten().data.astype(np.float64)
      lat = nc.variables["lat"][::stride].flatten().data.astype(np.float64)
      coords = zip(lon[lon<1000], lat[lat<1000])
      n = gj.LineString( coords )
      s = getncattrs(nc)
      if (not "time_coverage_start" in s) or (not "time_coverage_end" in s):
          s["time_coverage_start"], s["time_coverage_end"] = get_time_coverage(nc, stride)
      f = gj.Feature(id=s.get("id", None), geometry=n, properties=s)
  \<close>
\<close>

definition line_feature :: "'dt timelib \<Rightarrow> dataset \<Rightarrow> nat \<Rightarrow> error + feature" where
  "line_feature lib nc stride =
     bindE (getvar nc ''lon'') (\<lambda>lonv.
     bindE (strided_flat stride (var_shape lonv) (var_data lonv)) (\<lambda>lon.
     bindE (getvar nc ''lat'') (\<lambda>latv.
     bindE (strided_flat stride (var_shape latv) (var_data latv)) (\<lambda>lat.
     bindE (bool_index lon (map (\<lambda>x. x < 1000) lon)) (\<lambda>lons.
     bindE (bool_index lat (map (\<lambda>x. x < 1000) lat)) (\<lambda>lats.
     let coords = zip lons lats in
     bindE (coverage_properties lib nc stride) (\<lambda>s.
     Inr \<lparr>fid = (case map_of s ''id'' of None \<Rightarrow> PNone | Some v \<Rightarrow> v),
          coordinates = coords, properties = s\<rparr>)))))))"

text \<open>
  \<^verbatim>\<open>geojson\<close>, on the container it opens. The JSON text of the result and the
  optional callback wrapper are produced by the rendering boundary and are not
  modelled: the result is the feature, or the collection of features.
  \<^verbatim>\<open>
      stride = get_stride(nc)
      if len(nc.variables["lon"].shape) == 2:
          f = []
          for i in xrange(nc.variables["lon"].shape[1]):
              ...
          f = gj.FeatureCollection(f)
      else:
          ...
  \<close>
\<close>

definition geojson :: "'dt timelib \<Rightarrow> dataset \<Rightarrow> error + response" where
  "geojson lib nc =
     bindE (get_stride nc) (\<lambda>stride.
     bindE (getvar nc ''lon'') (\<lambda>lonv.
     if length (var_shape lonv) = 2 then
       bindE (mapE (column_feature lib nc stride) [0..<var_shape lonv ! 1]) (\<lambda>f.
       Inr (FeatureCollection f))
     else
       bindE (line_feature lib nc stride) (\<lambda>f. Inr (Feature f))))"

section \<open>Arrays handed to the writer\<close>

text \<open>
  A numpy array: its shape and its elements in row-major order. \<^verbatim>\<open>a.max()\<close> and
  \<^verbatim>\<open>a.min()\<close> raise ValueError on an array without elements.
\<close>

record ndarray =
  ashape :: "nat list"
  elems :: "real list"

definition array1 :: "real list \<Rightarrow> ndarray" where
  "array1 xs = \<lparr>ashape = [length xs], elems = xs\<rparr>"

definition amax :: "ndarray \<Rightarrow> error + real" where
  "amax a = (case elems a of [] \<Rightarrow> Inl ValueError | x # xs \<Rightarrow> Inr (fold max xs x))"

definition amin :: "ndarray \<Rightarrow> error + real" where
  "amin a = (case elems a of [] \<Rightarrow> Inl ValueError | x # xs \<Rightarrow> Inr (fold min xs x))"

text \<open>\<^verbatim>\<open>date2num(timedata, units=..., calendar=...)\<close> on a sequence of dates.\<close>

definition date2num_array :: "'dt timelib \<Rightarrow> 'dt list \<Rightarrow> ndarray" where
  "date2num_array lib ds = array1 (map (date2num lib) ds)"

text \<open>
  The arguments of \<^verbatim>\<open>writer_0_0\<close> after the file name: the three sequences whose
  lengths become the dimensions, the required arrays, and the quality-control arrays,
  which default to \<^verbatim>\<open>None\<close>.
\<close>

record 'dt observations =
  timedata :: "'dt list"
  time_uvdata :: "'dt list"
  trajectorydata :: "real list"
  segment_iddata :: ndarray
  profile_iddata :: ndarray
  depthdata :: ndarray
  latdata :: ndarray
  londata :: ndarray
  pressuredata :: ndarray
  conductivitydata :: ndarray
  densitydata :: ndarray
  salinitydata :: ndarray
  temperaturedata :: ndarray
  udata :: ndarray
  vdata :: ndarray
  lat_uvdata :: ndarray
  lon_uvdata :: ndarray
  time_qcdata :: "ndarray option"
  u_qcdata :: "ndarray option"
  v_qcdata :: "ndarray option"
  depth_qcdata :: "ndarray option"
  lat_qcdata :: "ndarray option"
  lon_qcdata :: "ndarray option"
  pressure_qcdata :: "ndarray option"
  conductivity_qcdata :: "ndarray option"
  density_qcdata :: "ndarray option"
  salinity_qcdata :: "ndarray option"
  temperature_qcdata :: "ndarray option"

section \<open>A container being written\<close>

text \<open>
  The storage library as the writer uses it. A container has named dimensions, global
  attributes and variables, in the order of their creation. A variable has an element
  type, dimension names, the fill value it was created with, the shape its dimensions
  give it, and its contents. A new variable is filled with its fill value, or with the
  default fill value of its type when it was created without one. The per-variable
  attribute dictionaries of the source are not modelled. An assignment
  \<^verbatim>\<open>v[:] = data\<close> converts the elements to the element type of the variable and
  stores them. For an array whose shape is not the shape of the variable the library
  broadcasts it or raises, depending on the two shapes; that part of the library is not
  modelled (the model stores the array with the shape it has), and what is proved
  about stored contents is proved for arrays that have the shape of their variable.
\<close>

datatype dtype = F8 | I2 | I1

text \<open>
  \<^verbatim>\<open>netCDF4.default_fillvals\<close> at \<^verbatim>\<open>'f8'\<close>, \<^verbatim>\<open>'i2'\<close> and \<^verbatim>\<open>'i1'\<close>:
  9.969209968386869e+36 (which is \<open>15 * 2 ^ 119\<close>), -32767 and -127.
\<close>

fun NC_FILL_VALUES :: "dtype \<Rightarrow> real" where
  "NC_FILL_VALUES F8 = 15 * 2 ^ 119"
| "NC_FILL_VALUES I2 = - 32767"
| "NC_FILL_VALUES I1 = - 127"

record ncvar =
  dtype :: dtype
  dimensions :: "string list"
  fill_value :: "real option"
  shape :: "nat list"
  contents :: ndarray

record container =
  dims :: "(string \<times> nat) list"
  gattrs :: "(string \<times> pyval) list"
  vars :: "(string \<times> ncvar) list"
  isopen :: bool

type_synonym files = "string \<rightharpoonup> container"

text \<open>
  A step of the writer changes the open container and may raise; what it had done to
  the container before raising stays done.
\<close>

type_synonym step = "container \<Rightarrow> error option \<times> container"

definition then_step :: "step \<Rightarrow> step \<Rightarrow> step" where
  "then_step f g nc = (case f nc of (Some e, nc') \<Rightarrow> (Some e, nc') | (None, nc') \<Rightarrow> g nc')"

fun steps :: "step list \<Rightarrow> step" where
  "steps [] = (\<lambda>nc. (None, nc))"
| "steps (s # ss) = then_step s (steps ss)"

text \<open>\<^verbatim>\<open>Dataset(filename, 'w', format='NETCDF4_CLASSIC')\<close> creates the file, or truncates it.\<close>

definition new_container :: container where
  "new_container = \<lparr>dims = [], gattrs = [], vars = [], isopen = True\<rparr>"

definition createDimension :: "string \<Rightarrow> nat \<Rightarrow> step" where
  "createDimension name sz nc = (None, nc\<lparr>dims := dims nc @ [(name, sz)]\<rparr>)"

definition setncattr :: "string \<Rightarrow> pyval \<Rightarrow> container \<Rightarrow> container" where
  "setncattr k v nc = nc\<lparr>gattrs := AList.update k v (gattrs nc)\<rparr>"

text \<open>The sizes of the named dimensions; a name that is not a dimension is an error.\<close>

fun dim_sizes :: "(string \<times> nat) list \<Rightarrow> string list \<Rightarrow> error + nat list" where
  "dim_sizes ds [] = Inr []"
| "dim_sizes ds (d # rest) =
     (case map_of ds d of
        None \<Rightarrow> Inl ValueError
      | Some n \<Rightarrow> bindE (dim_sizes ds rest) (\<lambda>ns. Inr (n # ns)))"

definition createVariable :: "string \<Rightarrow> dtype \<Rightarrow> string list \<Rightarrow> real option \<Rightarrow> step" where
  "createVariable name dt dimnames fill nc =
     (case dim_sizes (dims nc) dimnames of
        Inl e \<Rightarrow> (Some e, nc)
      | Inr shp \<Rightarrow>
          (None, nc\<lparr>vars := vars nc @
             [(name, \<lparr>dtype = dt, dimensions = dimnames, fill_value = fill, shape = shp,
                 contents = \<lparr>ashape = shp,
                   elems = replicate (prod_list shp)
                     (case fill of None \<Rightarrow> NC_FILL_VALUES dt | Some f \<Rightarrow> f)\<rparr>\<rparr>)]\<rparr>))"

text \<open>
  The conversion of an element to the element type of a variable, as numpy's
  \<^verbatim>\<open>astype\<close> does it: float64 keeps the value; a signed integer type of \<open>w\<close> bits
  drops the fraction (towards zero) and wraps the integer into
  \<open>- 2 ^ (w - 1), ..., 2 ^ (w - 1) - 1\<close>. So 1.7 becomes 1 and 300 becomes 44 in int8.
  This is the conversion of a value whose integer part fits 32 bits; what a larger one
  becomes depends on the platform, and the theorems below say nothing about it.
\<close>

definition truncate :: "real \<Rightarrow> int" where
  "truncate x = (if x < 0 then \<lceil>x\<rceil> else \<lfloor>x\<rfloor>)"

definition wrap :: "nat \<Rightarrow> int \<Rightarrow> int" where
  "wrap w i = (i + 2 ^ (w - 1)) mod 2 ^ w - 2 ^ (w - 1)"

fun astype :: "dtype \<Rightarrow> real \<Rightarrow> real" where
  "astype F8 x = x"
| "astype I2 x = real_of_int (wrap 16 (truncate x))"
| "astype I1 x = real_of_int (wrap 8 (truncate x))"

text \<open>\<^verbatim>\<open>v[:] = data\<close> for the variable \<open>name\<close>.\<close>

definition assign :: "string \<Rightarrow> ndarray \<Rightarrow> step" where
  "assign name d nc =
     (None, nc\<lparr>vars := AList.map_entry name
        (\<lambda>v. v\<lparr>contents := \<lparr>ashape = ashape d, elems = map (astype (dtype v)) (elems d)\<rparr>\<rparr>)
        (vars nc)\<rparr>)"

definition close :: step where
  "close nc = (None, nc\<lparr>isopen := False\<rparr>)"

section \<open>The writer\<close>

text \<open>
  \<^verbatim>\<open>
      req_time_vars = [depthdata, latdata, londata, pressuredata, conductivitydata,
                       densitydata, salinitydata, temperaturedata,]
      req_uv_vars = [udata, vdata, lat_uvdata, lon_uvdata]
      quality_vars = [depth_qcdata, lat_qcdata, lon_qcdata, pressure_qcdata,
                      conductivity_qcdata, density_qcdata, salinity_qcdata,
                      temperature_qcdata]
      for var in quality_vars:
          if var != None:
              req_time_vars.append(var)
  \<close>
\<close>

definition quality_vars :: "'dt observations \<Rightarrow> ndarray option list" where
  "quality_vars obs =
     [depth_qcdata obs, lat_qcdata obs, lon_qcdata obs, pressure_qcdata obs,
      conductivity_qcdata obs, density_qcdata obs, salinity_qcdata obs, temperature_qcdata obs]"

definition req_time_vars :: "'dt observations \<Rightarrow> ndarray list" where
  "req_time_vars obs =
     [depthdata obs, latdata obs, londata obs, pressuredata obs, conductivitydata obs,
      densitydata obs, salinitydata obs, temperaturedata obs]
     @ concat (map (\<lambda>var. case var of None \<Rightarrow> [] | Some a \<Rightarrow> [a]) (quality_vars obs))"

definition req_uv_vars :: "'dt observations \<Rightarrow> ndarray list" where
  "req_uv_vars obs = [udata obs, vdata obs, lat_uvdata obs, lon_uvdata obs]"

text \<open>
  \<^verbatim>\<open>
      for var in req_time_vars:
          assert time_size == var.shape[0]
  \<close>
  \<^verbatim>\<open>var.shape[0]\<close> raises IndexError for an array without axes.
\<close>

fun assert_lengths :: "nat \<Rightarrow> ndarray list \<Rightarrow> error option" where
  "assert_lengths sz [] = None"
| "assert_lengths sz (var # rest) =
     (case ashape var of
        [] \<Rightarrow> Some IndexError
      | n # _ \<Rightarrow> if sz = n then assert_lengths sz rest else Some AssertionError)"

definition check_shapes :: "'dt observations \<Rightarrow> step" where
  "check_shapes obs nc =
     (case assert_lengths (length (timedata obs)) (req_time_vars obs) of
        Some e \<Rightarrow> (Some e, nc)
      | None \<Rightarrow>
          (case assert_lengths (length (time_uvdata obs)) (req_uv_vars obs) of
             Some e \<Rightarrow> (Some e, nc)
           | None \<Rightarrow> (None, nc)))"

text \<open>
  The dictionary \<^verbatim>\<open>global_attributes\<close>, its entries evaluated in the order of the
  source: the extrema of \<^verbatim>\<open>latdata\<close>, \<^verbatim>\<open>londata\<close> and \<^verbatim>\<open>depthdata\<close>, then
  \<^verbatim>\<open>timedata[0]\<close> for \<^verbatim>\<open>time_coverage_end\<close> and \<^verbatim>\<open>timedata[-1]\<close> for
  \<^verbatim>\<open>time_coverage_start\<close>. \<open>now\<close> is \<^verbatim>\<open>t.ctime(t.time())\<close>.
\<close>

definition global_attributes ::
  "'dt timelib \<Rightarrow> string \<Rightarrow> 'dt observations \<Rightarrow> error + (string \<times> pyval) list"
where
  "global_attributes lib now obs =
     bindE (amax (latdata obs)) (\<lambda>lat_max.
     bindE (amin (latdata obs)) (\<lambda>lat_min.
     bindE (amax (londata obs)) (\<lambda>lon_max.
     bindE (amin (londata obs)) (\<lambda>lon_min.
     bindE (amax (depthdata obs)) (\<lambda>depth_max.
     bindE (amin (depthdata obs)) (\<lambda>depth_min.
     bindE (first (timedata obs)) (\<lambda>t_first.
     bindE (final (timedata obs)) (\<lambda>t_last.
     Inr [
        (''Conventions'', PStr ''CF-1.6''),
        (''Metadata_Conventions'', PStr ''Unidata Dataset Discovery v1.0''),
        (''acknowledgment'', PStr ''This deployment partially supported by ...''),
        (''cdm_data_type'', PStr ''Trajectory''),
        (''comment'', PStr ''This file is intended to be used as a template only.  Data is not to be used for scientific purposes.''),
        (''contributor_name'', PStr ''Scott Glenn, Oscar Schofield, John Kerfoot''),
        (''contributor_role'', PStr ''Principal Investigator, Principal Investigator, Data Manager''),
        (''creator_email'', PStr ''kerfoot@marine.rutgers.edu''),
        (''creator_name'', PStr ''John Kerfoot''),
        (''creator_url'', PStr ''http://marine.rutgers.edu/cool/auvs''),
        (''date_created'', PStr now),
        (''date_issued'', PStr now),
        (''date_modified'', PStr now),
        (''featureType'', PStr ''trajectory''),
        (''format_version'', PStr ''IOOS_Glider_NetCDF_Trajectory_Template_v0.0''),
        (''geospatial_lat_max'', PNum lat_max),
        (''geospatial_lat_min'', PNum lat_min),
        (''geospatial_lat_resolution'', PStr ''point''),
        (''geospatial_lat_units'', PStr ''degrees_north''),
        (''geospatial_lon_max'', PNum lon_max),
        (''geospatial_lon_min'', PNum lon_min),
        (''geospatial_lon_resolution'', PStr ''point''),
        (''geospatial_lon_units'', PStr ''degrees_east''),
        (''geospatial_vertical_max'', PNum depth_max),
        (''geospatial_vertical_min'', PNum depth_min),
        (''geospatial_vertical_positive'', PStr ''down''),
        (''geospatial_vertical_resolution'', PStr ''point''),
        (''geospatial_vertical_units'', PStr ''meters''),
        (''history'', PStr (''Created on '' @ now)),
        (''id'', PStr ''''),
        (''institution'', PStr ''Institute of Marine & Coastal Sciences, Rutgers University''),
        (''keywords'', PStr ''Oceans > Ocean Pressure > Water Pressure, Oceans > Ocean Temperature > Water Temperature, Oceans > Salinity/Density > Conductivity, Oceans > Salinity/Density > Density, Oceans > Salinity/Density > Salinity''),
        (''keywords_vocabulary'', PStr ''GCMD Science Keywords''),
        (''license'', PStr ''This data may be redistributed and used without restriction.''),
        (''metadata_link'', PStr ''''),
        (''naming_authority'', PStr ''edu.rutgers.marine''),
        (''processing_level'', PStr ''Written to file from ioos_glider.writer_0_0()''),
        (''project'', PStr ''Deployment not project based''),
        (''publisher_email'', PStr ''kerfoot@marine.rutgers.edu''),
        (''publisher_name'', PStr ''John Kerfoot''),
        (''publisher_url'', PStr ''http://marine.rutgers.edu/cool/auvs''),
        (''references'', PStr ''''),
        (''sea_name'', PStr ''''),
        (''standard_name_vocabulary'', PStr ''CF-v25''),
        (''source'', PStr ''Observational data from a profiling glider''),
        (''summary'', PStr ''The Rutgers University Coastal Ocean Observation Lab has deployed autonomous underwater gliders around the world since 1990. Gliders are small, free-swimming, unmanned vehicles that use changes in buoyancy to move vertically and horizontally through the water column in a saw-tooth pattern. They are deployed for days to several months and gather detailed information about the physical, chemical and biological processes of the world's The Slocum glider was designed and oceans. built by Teledyne Webb Research Corporation, Falmouth, MA, USA.''),
        (''time_coverage_end'', PStr (strftime lib t_first)),
        (''time_coverage_resolution'', PStr ''point''),
        (''time_coverage_start'', PStr (strftime lib t_last)),
        (''title'', PStr ''Glider Dataset'')
     ]))))))))"

text \<open>
  \<^verbatim>\<open>
      for key in kwargs.iterkeys():
          global_attributes[key] = kwargs[key]
      for k in sorted(global_attributes.keys()) :
          nc.setncattr(k, global_attributes[k])
  \<close>
  Every key of the second loop is a key of the dictionary, so the lookup cannot fail.
\<close>

definition merge_kwargs :: "(string \<times> pyval) list \<Rightarrow> (string \<times> pyval) list \<Rightarrow> (string \<times> pyval) list" where
  "merge_kwargs kwargs ga = fold (\<lambda>(key, v). AList.update key v) kwargs ga"

definition dict_get :: "(string \<times> pyval) list \<Rightarrow> string \<Rightarrow> pyval" where
  "dict_get d k = (case map_of d k of None \<Rightarrow> PNone | Some v \<Rightarrow> v)"

definition set_global_attributes ::
  "'dt timelib \<Rightarrow> string \<Rightarrow> 'dt observations \<Rightarrow> (string \<times> pyval) list \<Rightarrow> step"
where
  "set_global_attributes lib now obs kwargs nc =
     (case global_attributes lib now obs of
        Inl e \<Rightarrow> (Some e, nc)
      | Inr ga \<Rightarrow>
          (let ga = merge_kwargs kwargs ga
           in (None, fold (\<lambda>k. setncattr k (dict_get ga k)) (sort (map fst ga)) nc)))"

text \<open>
  The variables in the order the source creates them: name, element type, dimensions,
  fill value, and the data assigned after creation (\<open>None\<close> where the source assigns
  nothing, which for a quality-control variable is when its argument is \<^verbatim>\<open>None\<close>).
  \<^verbatim>\<open>
      dim_tuple = ('time',)
      uv_tuple = ('time_uv',)
      if len(trajectorydata) > 1:
          dim_tuple = ('time', 'trajectory',)
          uv_tuple = ('time_uv', 'trajectory',)
  \<close>
\<close>

type_synonym varspec = "string \<times> dtype \<times> string list \<times> real option \<times> ndarray option"

definition dim_tuple :: "'dt observations \<Rightarrow> string list" where
  "dim_tuple obs =
     (if length (trajectorydata obs) > 1 then [''time'', ''trajectory''] else [''time''])"

definition uv_tuple :: "'dt observations \<Rightarrow> string list" where
  "uv_tuple obs =
     (if length (trajectorydata obs) > 1 then [''time_uv'', ''trajectory''] else [''time_uv''])"

definition variable_table :: "'dt timelib \<Rightarrow> 'dt observations \<Rightarrow> varspec list" where
  "variable_table lib obs =
     (let dim_tuple = dim_tuple obs; uv_tuple = uv_tuple obs in
     [(''time'', F8, [''time''], None, Some (date2num_array lib (timedata obs))),
      (''time_qc'', I1, [''time''], Some (NC_FILL_VALUES I1), time_qcdata obs),
      (''time_uv'', F8, [''time_uv''], None, Some (date2num_array lib (time_uvdata obs))),
      (''trajectory'', I2, [''trajectory''], None, Some (array1 (trajectorydata obs))),
      (''segment_id'', I2, dim_tuple, Some (NC_FILL_VALUES I2), Some (segment_iddata obs)),
      (''profile_id'', I2, dim_tuple, Some (NC_FILL_VALUES I2), Some (profile_iddata obs)),
      (''depth'', F8, dim_tuple, Some (NC_FILL_VALUES F8), Some (depthdata obs)),
      (''depth_qc'', I1, dim_tuple, Some (NC_FILL_VALUES I1), depth_qcdata obs),
      (''lat'', F8, dim_tuple, Some (NC_FILL_VALUES F8), Some (latdata obs)),
      (''lat_qc'', I1, dim_tuple, Some (NC_FILL_VALUES I1), lat_qcdata obs),
      (''lon'', F8, dim_tuple, Some (NC_FILL_VALUES F8), Some (londata obs)),
      (''lon_qc'', I1, dim_tuple, Some (NC_FILL_VALUES I1), lon_qcdata obs),
      (''pressure'', F8, dim_tuple, Some (NC_FILL_VALUES F8), Some (pressuredata obs)),
      (''pressure_qc'', I1, dim_tuple, Some (NC_FILL_VALUES I1), pressure_qcdata obs),
      (''conductivity'', F8, dim_tuple, Some (NC_FILL_VALUES F8), Some (conductivitydata obs)),
      (''conductivity_qc'', I1, dim_tuple, Some (NC_FILL_VALUES I1), conductivity_qcdata obs),
      (''density'', F8, dim_tuple, Some (NC_FILL_VALUES F8), Some (densitydata obs)),
      (''density_qc'', I1, dim_tuple, Some (NC_FILL_VALUES I1), density_qcdata obs),
      (''salinity'', F8, dim_tuple, Some (NC_FILL_VALUES F8), Some (salinitydata obs)),
      (''salinity_qc'', I1, dim_tuple, Some (NC_FILL_VALUES I1), salinity_qcdata obs),
      (''temperature'', F8, dim_tuple, Some (NC_FILL_VALUES F8), Some (temperaturedata obs)),
      (''temperature_qc'', I1, dim_tuple, Some (NC_FILL_VALUES I1), temperature_qcdata obs),
      (''lat_uv'', F8, uv_tuple, Some (NC_FILL_VALUES F8), Some (lat_uvdata obs)),
      (''lon_uv'', F8, uv_tuple, Some (NC_FILL_VALUES F8), Some (lon_uvdata obs)),
      (''u'', F8, uv_tuple, Some (NC_FILL_VALUES F8), Some (udata obs)),
      (''u_qc'', I1, uv_tuple, Some (NC_FILL_VALUES I1), u_qcdata obs),
      (''v'', F8, uv_tuple, Some (NC_FILL_VALUES F8), Some (vdata obs)),
      (''v_qc'', I1, uv_tuple, Some (NC_FILL_VALUES I1), v_qcdata obs),
      (''platform'', I1, [], None, None),
      (''instrument_ctd'', I1, [], None, None)])"

definition define_variable :: "varspec \<Rightarrow> step" where
  "define_variable = (\<lambda>(name, dt, dimnames, fill, dat).
     then_step (createVariable name dt dimnames fill)
       (case dat of None \<Rightarrow> (\<lambda>nc. (None, nc)) | Some d \<Rightarrow> assign name d))"

text \<open>
  \<^verbatim>\<open>writer_0_0\<close>: open the destination, check the lengths, create the dimensions, set
  the global attributes, create and fill the variables, close. The result is the
  exception raised, if any, and the files afterwards.
\<close>

definition writer_0_0 ::
  "'dt timelib \<Rightarrow> string \<Rightarrow> string \<Rightarrow> 'dt observations \<Rightarrow> (string \<times> pyval) list \<Rightarrow> files
     \<Rightarrow> error option \<times> files"
where
  "writer_0_0 lib now filename obs kwargs fs =
     (let (r, nc) =
        steps
          ([check_shapes obs,
            createDimension ''time'' (length (timedata obs)),
            createDimension ''trajectory'' (length (trajectorydata obs)),
            createDimension ''time_uv'' (length (time_uvdata obs)),
            set_global_attributes lib now obs kwargs]
           @ map define_variable (variable_table lib obs)
           @ [close])
          new_container
      in (r, fs(filename \<mapsto> nc)))"

section \<open>Reference descriptions and example containers\<close>

text \<open>
  The features of a response, and the coordinates the source selects for one column of
  a two-dimensional container: of the time indices 0, stride, 2 stride, ..., those
  whose longitude is not masked and is below 1000 by the signed comparison of the
  source, each giving the pair of the longitude and the latitude at that index and
  column. A longitude of -1000 or less passes the comparison.
\<close>

definition features_of :: "response \<Rightarrow> feature list" where
  "features_of r = (case r of Feature f \<Rightarrow> [f] | FeatureCollection fs \<Rightarrow> fs)"

definition column_coords :: "nat \<Rightarrow> nat \<Rightarrow> variable \<Rightarrow> variable \<Rightarrow> (real \<times> real) list" where
  "column_coords stride i lonv latv =
     (let T = var_shape lonv ! 1 in
      map (\<lambda>t. (var_data lonv ! (t * T + i), var_data latv ! (t * T + i)))
        (filter (\<lambda>t. \<not> var_mask lonv ! (t * T + i) \<and> var_data lonv ! (t * T + i) < 1000)
           (every stride [0..<hd (var_shape lonv)])))"

text \<open>
  A calendar for the examples: numbers are seconds since 1970-01-01 00:00:00 UTC, a
  date is kept as its number of seconds, and two instants have their formatted text
  written out.
\<close>

definition example_lib :: "real timelib" where
  "example_lib =
     \<lparr>num2date = (\<lambda>x u. Inr x), date2num = (\<lambda>d. d),
      strftime = (\<lambda>d. if d = 0 then ''1970-01-01 00:00 UTC''
                       else if d = 60 then ''1970-01-01 00:01 UTC'' else ''later'')\<rparr>"

definition vec :: "real list \<Rightarrow> variable" where
  "vec xs = \<lparr>var_shape = [length xs], var_data = xs, var_mask = map (\<lambda>x. False) xs,
             var_units = None\<rparr>"

definition timevec :: "real list \<Rightarrow> variable" where
  "timevec xs = (vec xs)\<lparr>var_units := Some ''seconds since 1970-01-01 00:00:00 UTC''\<rparr>"

text \<open>The scenario of the specification: a longitude series with one sentinel.\<close>

definition ex_line :: dataset where
  "ex_line = \<lparr>variables = [''lon'' \<mapsto> vec [10, 20, 1500, 30], ''lat'' \<mapsto> vec [1, 2, 3, 4]],
              ncattrs = [(''id'', PStr ''ru29'')]\<rparr>"

text \<open>A container with both time candidates, one with neither, one with no latitude.\<close>

definition ex_both_times :: dataset where
  "ex_both_times =
     \<lparr>variables = [''lon'' \<mapsto> vec [10], ''lat'' \<mapsto> vec [1],
                   ''ocean_time'' \<mapsto> timevec [0], ''time'' \<mapsto> timevec [60]],
      ncattrs = []\<rparr>"

definition ex_no_time :: dataset where
  "ex_no_time = \<lparr>variables = [''lon'' \<mapsto> vec [10], ''lat'' \<mapsto> vec [1]], ncattrs = []\<rparr>"

definition ex_no_lat :: dataset where
  "ex_no_lat = \<lparr>variables = [''lon'' \<mapsto> vec [10]], ncattrs = []\<rparr>"

definition ex_no_columns :: dataset where
  "ex_no_columns =
     \<lparr>variables = [''lon'' \<mapsto> \<lparr>var_shape = [3, 0], var_data = [], var_mask = [],
                                var_units = None\<rparr>],
      ncattrs = []\<rparr>"

text \<open>Containers that declare one or both of the coverage attributes.\<close>

definition ex_start_only :: dataset where
  "ex_start_only =
     \<lparr>variables = [''lon'' \<mapsto> vec [10], ''lat'' \<mapsto> vec [1], ''time'' \<mapsto> timevec [60]],
      ncattrs = [(''time_coverage_start'', PStr ''2013-07-19 00:00 UTC'')]\<rparr>"

definition ex_declared :: dataset where
  "ex_declared =
     \<lparr>variables = [''lon'' \<mapsto> vec [10], ''lat'' \<mapsto> vec [1], ''time'' \<mapsto> timevec [60]],
      ncattrs = [(''time_coverage_start'', PStr ''2013-07-19 00:00 UTC''),
                 (''time_coverage_end'', PStr ''2013-07-22 00:00 UTC'')]\<rparr>"

text \<open>Two trajectories of three samples; the second sample of the first is masked.\<close>

definition ex_grid :: dataset where
  "ex_grid =
     \<lparr>variables =
        [''lon'' \<mapsto> \<lparr>var_shape = [3, 2], var_data = [10, 11, 20, 1500, 30, 31],
                      var_mask = [False, False, True, False, False, False], var_units = None\<rparr>,
         ''lat'' \<mapsto> \<lparr>var_shape = [3, 2], var_data = [1, 2, 3, 4, 5, 6],
                      var_mask = [False, False, False, False, False, False], var_units = None\<rparr>,
         ''trajectory'' \<mapsto> vec [7, 8]],
      ncattrs = [(''time_coverage_start'', PStr ''2013-07-19 00:00 UTC''),
                 (''time_coverage_end'', PStr ''2013-07-22 00:00 UTC'')]\<rparr>"

text \<open>A column with a longitude far below -1000; no trajectory variable.\<close>

definition ex_grid_west :: dataset where
  "ex_grid_west =
     \<lparr>variables =
        [''lon'' \<mapsto> \<lparr>var_shape = [3, 1], var_data = [10, - 1500, 30],
                      var_mask = [False, False, False], var_units = None\<rparr>,
         ''lat'' \<mapsto> \<lparr>var_shape = [3, 1], var_data = [1, 3, 5],
                      var_mask = [False, False, False], var_units = None\<rparr>],
      ncattrs = [(''time_coverage_start'', PStr ''2013-07-19 00:00 UTC''),
                 (''time_coverage_end'', PStr ''2013-07-22 00:00 UTC'')]\<rparr>"

text \<open>
  Example observations for the writer: two times, one depth-averaged current, one
  trajectory; the quality flags of depth are supplied and all others are omitted.
\<close>

definition grid :: "nat list \<Rightarrow> real list \<Rightarrow> ndarray" where
  "grid shp xs = \<lparr>ashape = shp, elems = xs\<rparr>"

definition ex_obs :: "real observations" where
  "ex_obs =
     \<lparr>timedata = [0, 60], time_uvdata = [0], trajectorydata = [1],
      segment_iddata = grid [2] [1, 1], profile_iddata = grid [2] [1, 2],
      depthdata = grid [2] [5, 10], latdata = grid [2] [39, 40], londata = grid [2] [-74, -73],
      pressuredata = grid [2] [5, 10], conductivitydata = grid [2] [3, 4],
      densitydata = grid [2] [1025, 1026], salinitydata = grid [2] [35, 36],
      temperaturedata = grid [2] [10, 11], udata = grid [1] [0], vdata = grid [1] [0],
      lat_uvdata = grid [1] [39], lon_uvdata = grid [1] [-74],
      time_qcdata = None, u_qcdata = None, v_qcdata = None,
      depth_qcdata = Some (grid [2] [1, 4]), lat_qcdata = None, lon_qcdata = None,
      pressure_qcdata = None, conductivity_qcdata = None, density_qcdata = None,
      salinity_qcdata = None, temperature_qcdata = None\<rparr>"

text \<open>The same with two trajectories: arrays of two times by two trajectories.\<close>

definition ex_obs2 :: "real observations" where
  "ex_obs2 =
     \<lparr>timedata = [0, 60], time_uvdata = [0], trajectorydata = [1, 2],
      segment_iddata = grid [2, 2] [1, 1, 1, 1], profile_iddata = grid [2, 2] [1, 1, 2, 2],
      depthdata = grid [2, 2] [5, 6, 10, 11], latdata = grid [2, 2] [39, 38, 40, 37],
      londata = grid [2, 2] [-74, -75, -73, -76],
      pressuredata = grid [2, 2] [5, 6, 10, 11], conductivitydata = grid [2, 2] [3, 3, 4, 4],
      densitydata = grid [2, 2] [1025, 1025, 1026, 1026],
      salinitydata = grid [2, 2] [35, 35, 36, 36],
      temperaturedata = grid [2, 2] [10, 10, 11, 11],
      udata = grid [1, 2] [0, 0], vdata = grid [1, 2] [0, 0],
      lat_uvdata = grid [1, 2] [39, 38], lon_uvdata = grid [1, 2] [-74, -75],
      time_qcdata = None, u_qcdata = None, v_qcdata = None,
      depth_qcdata = None, lat_qcdata = None, lon_qcdata = None,
      pressure_qcdata = None, conductivity_qcdata = None, density_qcdata = None,
      salinity_qcdata = None, temperature_qcdata = None\<rparr>"

text \<open>
  Two trajectories are declared, but every two-dimensional array has a single column.
\<close>

definition ex_obs_narrow :: "real observations" where
  "ex_obs_narrow =
     \<lparr>timedata = [0, 60], time_uvdata = [0], trajectorydata = [1, 2],
      segment_iddata = grid [2, 1] [1, 1], profile_iddata = grid [2, 1] [1, 2],
      depthdata = grid [2, 1] [5, 10], latdata = grid [2, 1] [39, 40],
      londata = grid [2, 1] [-74, -73],
      pressuredata = grid [2, 1] [5, 10], conductivitydata = grid [2, 1] [3, 4],
      densitydata = grid [2, 1] [1025, 1026], salinitydata = grid [2, 1] [35, 36],
      temperaturedata = grid [2, 1] [10, 11],
      udata = grid [1, 1] [0], vdata = grid [1, 1] [0],
      lat_uvdata = grid [1, 1] [39], lon_uvdata = grid [1, 1] [-74],
      time_qcdata = None, u_qcdata = None, v_qcdata = None,
      depth_qcdata = None, lat_qcdata = None, lon_qcdata = None,
      pressure_qcdata = None, conductivity_qcdata = None, density_qcdata = None,
      salinity_qcdata = None, temperature_qcdata = None\<rparr>"

text \<open>A latitude array of three elements against two times; a segment array likewise.\<close>

definition ex_obs_bad_lat :: "real observations" where
  "ex_obs_bad_lat = ex_obs\<lparr>latdata := grid [3] [39, 40, 41]\<rparr>"

definition ex_obs_bad_segment :: "real observations" where
  "ex_obs_bad_segment = ex_obs\<lparr>segment_iddata := grid [3] [1, 1, 1]\<rparr>"


text \<open>A destination that already holds a closed container.\<close>

definition ex_prior :: container where
  "ex_prior = \<lparr>dims = [(''time'', 1)], gattrs = [(''title'', PStr ''earlier'')], vars = [],
               isopen = False\<rparr>"

definition ex_files :: files where
  "ex_files = [''out.nc'' \<mapsto> ex_prior]"

section \<open>Reference descriptions of what the writer leaves behind\<close>

text \<open>
  The conditions under which no step of the writer raises: the two loops of length
  checks pass, the arrays whose extrema go into the global attributes have elements,
  and there is a first and a last time.
\<close>

definition writable :: "'dt observations \<Rightarrow> bool" where
  "writable obs \<longleftrightarrow>
     assert_lengths (length (timedata obs)) (req_time_vars obs) = None \<and>
     assert_lengths (length (time_uvdata obs)) (req_uv_vars obs) = None \<and>
     elems (latdata obs) \<noteq> [] \<and> elems (londata obs) \<noteq> [] \<and> elems (depthdata obs) \<noteq> [] \<and>
     timedata obs \<noteq> []"

text \<open>The three dimensions, and the variable that one row of the table creates.\<close>

definition dims3 :: "'dt observations \<Rightarrow> (string \<times> nat) list" where
  "dims3 obs =
     [(''time'', length (timedata obs)), (''trajectory'', length (trajectorydata obs)),
      (''time_uv'', length (time_uvdata obs))]"

definition shape_of :: "(string \<times> nat) list \<Rightarrow> string list \<Rightarrow> nat list" where
  "shape_of ds dimnames = (case dim_sizes ds dimnames of Inl e \<Rightarrow> [] | Inr shp \<Rightarrow> shp)"

definition built :: "(string \<times> nat) list \<Rightarrow> varspec \<Rightarrow> string \<times> ncvar" where
  "built ds = (\<lambda>(name, dt, dimnames, fill, dat).
     (name, \<lparr>dtype = dt, dimensions = dimnames, fill_value = fill, shape = shape_of ds dimnames,
        contents = (case dat of
            None \<Rightarrow> \<lparr>ashape = shape_of ds dimnames,
                     elems = replicate (prod_list (shape_of ds dimnames))
                       (case fill of None \<Rightarrow> NC_FILL_VALUES dt | Some f \<Rightarrow> f)\<rparr>
          | Some d \<Rightarrow> \<lparr>ashape = ashape d, elems = map (astype dt) (elems d)\<rparr>)\<rparr>))"

definition written_attrs :: "(string \<times> pyval) list \<Rightarrow> (string \<times> pyval) list" where
  "written_attrs ga = fold (\<lambda>k. AList.update k (dict_get ga k)) (sort (map fst ga)) []"

definition written ::
  "'dt timelib \<Rightarrow> string \<Rightarrow> 'dt observations \<Rightarrow> (string \<times> pyval) list \<Rightarrow> container"
where
  "written lib now obs kwargs =
     \<lparr>dims = dims3 obs,
      gattrs = (case global_attributes lib now obs of
                  Inl e \<Rightarrow> []
                | Inr ga \<Rightarrow> written_attrs (merge_kwargs kwargs ga)),
      vars = map (built (dims3 obs)) (variable_table lib obs),
      isopen = False\<rparr>"










definition time_class :: "string list" where
  "time_class =
     [''segment_id'', ''profile_id'', ''depth'', ''depth_qc'', ''lat'', ''lat_qc'', ''lon'',
      ''lon_qc'', ''pressure'', ''pressure_qc'', ''conductivity'', ''conductivity_qc'',
      ''density'', ''density_qc'', ''salinity'', ''salinity_qc'', ''temperature'',
      ''temperature_qc'']"

definition time_uv_class :: "string list" where
  "time_uv_class = [''lat_uv'', ''lon_uv'', ''u'', ''u_qc'', ''v'', ''v_qc'']"

section \<open>Strided sampling\<close>

lemma every_map: "every s (map f xs) = map f (every s xs)"
  by (induction s xs rule: every.induct) (simp_all add: drop_map)







section \<open>The time variable and the required variables\<close>

lemma bindE_Inr: "bindE (Inr x) f = f x"
  by (simp add: bindE_def)

lemma bindE_Inl: "bindE (Inl e) f = Inl e"
  by (simp add: bindE_def)

lemma resolve_tname_eq:
  "resolve_tname nc =
     (if variables nc ''time'' \<noteq> None then Some ''time''
      else if variables nc ''ocean_time'' \<noteq> None then Some ''ocean_time'' else None)"
  by (simp add: resolve_tname_def)

lemma get_stride_Some:
  "variables nc ''lon'' = Some lonv \<Longrightarrow> var_shape lonv \<noteq> [] \<Longrightarrow>
   get_stride nc = Inr (if 1000 < hd (var_shape lonv) then 200 else 1)"
  by (cases "var_shape lonv") (simp_all add: get_stride_def getvar_def bindE_def first_def)

lemma geojson_no_lon: "variables nc ''lon'' = None \<Longrightarrow> geojson lib nc = Inl (KeyError ''lon'')"
  by (simp add: geojson_def get_stride_def getvar_def bindE_def)

lemma column_feature_no_lat:
  assumes "variables nc ''lon'' = Some lonv" and "length (var_shape lonv) = 2"
    and "i < var_shape lonv ! 1" and "variables nc ''lat'' = None"
  shows "column_feature lib nc stride i = Inl (KeyError ''lat'')"
  using assms by (simp add: column_feature_def getvar_def strided_column_def bindE_def Let_def)

lemma line_feature_no_lat:
  assumes "variables nc ''lon'' = Some lonv" and "var_shape lonv \<noteq> []"
    and "variables nc ''lat'' = None"
  shows "line_feature lib nc stride = Inl (KeyError ''lat'')"
  using assms by (simp add: line_feature_def getvar_def strided_flat_def bindE_def)

lemma mapE_upt_fail: "0 < n \<Longrightarrow> f 0 = Inl e \<Longrightarrow> mapE f [0..<n] = Inl e"
  by (simp add: upt_conv_Cons bindE_Inl)

lemma geojson_no_lat:
  assumes lon: "variables nc ''lon'' = Some lonv" and ne: "var_shape lonv \<noteq> []"
    and cols: "\<not> (length (var_shape lonv) = 2 \<and> var_shape lonv ! 1 = 0)"
    and lat: "variables nc ''lat'' = None"
  shows "geojson lib nc = Inl (KeyError ''lat'')"
proof (cases "length (var_shape lonv) = 2")
  case True
  with cols have pos: "0 < var_shape lonv ! 1" by simp
  have "column_feature lib nc stride 0 = Inl (KeyError ''lat'')" for stride
    using lon True pos lat by (rule column_feature_no_lat)
  with pos have "mapE (column_feature lib nc stride) [0..<var_shape lonv ! 1] = Inl (KeyError ''lat'')"
    for stride by (rule mapE_upt_fail)
  then show ?thesis
    using lon ne True
    by (simp add: geojson_def get_stride_Some getvar_def bindE_Inr bindE_Inl del: One_nat_def)
next
  case False
  have "line_feature lib nc stride = Inl (KeyError ''lat'')" for stride
    using lon ne lat by (rule line_feature_no_lat)
  then show ?thesis
    using lon ne False
    by (simp add: geojson_def get_stride_Some getvar_def bindE_Inr bindE_Inl)
qed

text \<open>
  Claim C7, as amended. Of the two candidate names the generic \<^verbatim>\<open>time\<close> wins, and
  \<^verbatim>\<open>ocean_time\<close> is used only when \<^verbatim>\<open>time\<close> is absent. When neither exists the
  coverage is the pair (None, None) and nothing is raised. The projection raises
  KeyError when \<^verbatim>\<open>lon\<close> is absent, and when \<^verbatim>\<open>lat\<close> is absent while \<^verbatim>\<open>lon\<close> has
  at least one axis and is not a two-dimensional variable without columns.
\<close>

theorem time_name_resolution:
  "resolve_tname nc =
     (if variables nc ''time'' \<noteq> None then Some ''time''
      else if variables nc ''ocean_time'' \<noteq> None then Some ''ocean_time'' else None) \<and>
   (variables nc ''time'' = None \<and> variables nc ''ocean_time'' = None \<longrightarrow>
      get_time_coverage lib nc stride = Inr (PNone, PNone)) \<and>
   (variables nc ''lon'' = None \<longrightarrow> geojson lib nc = Inl (KeyError ''lon'')) \<and>
   (\<forall>lonv. variables nc ''lon'' = Some lonv \<and> var_shape lonv \<noteq> [] \<and>
      \<not> (length (var_shape lonv) = 2 \<and> var_shape lonv ! 1 = 0) \<and>
      variables nc ''lat'' = None \<longrightarrow> geojson lib nc = Inl (KeyError ''lat''))"
proof -
  have "get_time_coverage lib nc stride = Inr (PNone, PNone)"
    if "variables nc ''time'' = None" and "variables nc ''ocean_time'' = None"
    using that by (simp add: get_time_coverage_def resolve_tname_eq)
  then show ?thesis
    using resolve_tname_eq [of nc] geojson_no_lon [of nc lib] geojson_no_lat [of nc _ lib]
    by blast
qed

text \<open>
  The claim as stated fails: with both candidates present the coverage is read from
  \<^verbatim>\<open>time\<close> (60 seconds), not from \<^verbatim>\<open>ocean_time\<close> (0 seconds); with neither present
  the projection returns a feature whose coverage properties are None; without
  \<^verbatim>\<open>lat\<close>, a \<^verbatim>\<open>lon\<close> of no columns projects to the empty collection.
\<close>

theorem time_name_counterexample:
  "resolve_tname ex_both_times = Some ''time'' \<and>
   get_time_coverage example_lib ex_both_times 1 =
     Inr (PStr ''1970-01-01 00:01 UTC'', PStr ''1970-01-01 00:01 UTC'') \<and>
   geojson example_lib ex_no_time =
     Inr (Feature \<lparr>fid = PNone, coordinates = [(10, 1)],
        properties = [(''time_coverage_start'', PNone), (''time_coverage_end'', PNone)]\<rparr>) \<and>
   variables ex_no_columns ''lat'' = None \<and>
   geojson example_lib ex_no_columns = Inr (FeatureCollection [])"
  by code_simp

theorem time_name_resolution_witness:
  "resolve_tname ex_both_times = Some ''time'' \<and>
   get_time_coverage example_lib ex_no_time 1 = Inr (PNone, PNone) \<and>
   geojson example_lib ex_no_lat = Inl (KeyError ''lat'')"
proof -
  have a: "variables ex_both_times ''time'' \<noteq> None"
    and b: "variables ex_no_time ''time'' = None \<and> variables ex_no_time ''ocean_time'' = None"
    and c: "variables ex_no_lat ''lon'' = Some (vec [10]) \<and> var_shape (vec [10]) \<noteq> [] \<and>
      \<not> (length (var_shape (vec [10])) = 2 \<and> var_shape (vec [10]) ! 1 = 0) \<and>
      variables ex_no_lat ''lat'' = None"
    by (simp_all add: ex_both_times_def ex_no_time_def ex_no_lat_def vec_def)
  from a time_name_resolution [of ex_both_times example_lib 1]
  have "resolve_tname ex_both_times = Some ''time''" by simp
  moreover from b time_name_resolution [of ex_no_time example_lib 1]
  have "get_time_coverage example_lib ex_no_time 1 = Inr (PNone, PNone)" by blast
  moreover from c time_name_resolution [of ex_no_lat example_lib 1]
  have "geojson example_lib ex_no_lat = Inl (KeyError ''lat'')" by blast
  ultimately show ?thesis by simp
qed

section \<open>Declared and derived coverage\<close>

lemma mapE_Inr_elem:
  "mapE f xs = Inr ys \<Longrightarrow> y \<in> set ys \<Longrightarrow> \<exists>x \<in> set xs. f x = Inr y"
proof (induction xs arbitrary: ys)
  case Nil
  then show ?case by simp
next
  case (Cons x xs)
  then show ?case
    by (auto simp: bindE_def split: sum.splits)
qed

lemma column_feature_properties:
  "column_feature lib nc stride i = Inr f \<Longrightarrow> coverage_properties lib nc stride = Inr (properties f)"
  unfolding column_feature_def bindE_def Let_def
  by (auto split: sum.splits option.splits)

lemma line_feature_properties:
  "line_feature lib nc stride = Inr f \<Longrightarrow> coverage_properties lib nc stride = Inr (properties f)"
  unfolding line_feature_def bindE_def Let_def
  by (auto split: sum.splits option.splits)

lemma geojson_properties:
  assumes "get_stride nc = Inr stride" and "geojson lib nc = Inr r" and "f \<in> set (features_of r)"
  shows "coverage_properties lib nc stride = Inr (properties f)"
proof -
  from assms(1) obtain lonv where lon: "getvar nc ''lon'' = Inr lonv"
    by (auto simp: get_stride_def bindE_def split: sum.splits)
  show ?thesis
  proof (cases "length (var_shape lonv) = 2")
    case True
    with assms lon obtain fs where fs: "mapE (column_feature lib nc stride) [0..<var_shape lonv ! 1] = Inr fs"
      and r: "r = FeatureCollection fs"
      by (auto simp: geojson_def bindE_def split: sum.splits)
    with assms(3) have "f \<in> set fs" by (simp add: features_of_def)
    with fs obtain i where "column_feature lib nc stride i = Inr f"
      by (blast dest: mapE_Inr_elem)
    then show ?thesis by (rule column_feature_properties)
  next
    case False
    with assms lon obtain g where g: "line_feature lib nc stride = Inr g" and r: "r = Feature g"
      by (auto simp: geojson_def bindE_def split: sum.splits)
    with assms(3) have "f = g" by (simp add: features_of_def)
    with g show ?thesis by (simp add: line_feature_properties)
  qed
qed

lemma coverage_properties_declared:
  assumes "map_of (getncattrs nc) ''time_coverage_start'' \<noteq> None"
    and "map_of (getncattrs nc) ''time_coverage_end'' \<noteq> None"
  shows "coverage_properties lib nc stride = Inr (getncattrs nc)"
  using assms by (auto simp: coverage_properties_def Let_def)

lemma coverage_properties_derived:
  assumes "map_of (getncattrs nc) ''time_coverage_start'' = None \<or>
           map_of (getncattrs nc) ''time_coverage_end'' = None"
    and "get_time_coverage lib nc stride = Inr (a, b)"
  shows "\<exists>s. coverage_properties lib nc stride = Inr s \<and>
           map_of s = (map_of (getncattrs nc))(''time_coverage_start'' \<mapsto> a, ''time_coverage_end'' \<mapsto> b)"
  using assms by (auto simp: coverage_properties_def Let_def bindE_def update_conv')

text \<open>
  Claim C8, as amended. The properties of a feature are the stored attributes, read
  afresh for every feature. When both coverage attributes are declared they are
  returned as stored, and nothing is derived. When at least one of them is absent,
  both keys are set to the derived coverage, so a declared value whose partner is
  absent is replaced in the returned properties. The projection only reads the
  container: it returns a response and no container.
\<close>

theorem coverage_layering:
  assumes "get_stride nc = Inr stride"
  shows "(map_of (getncattrs nc) ''time_coverage_start'' \<noteq> None \<and>
          map_of (getncattrs nc) ''time_coverage_end'' \<noteq> None \<longrightarrow>
            coverage_properties lib nc stride = Inr (getncattrs nc)) \<and>
         (\<forall>a b. (map_of (getncattrs nc) ''time_coverage_start'' = None \<or>
                 map_of (getncattrs nc) ''time_coverage_end'' = None) \<and>
                get_time_coverage lib nc stride = Inr (a, b) \<longrightarrow>
            (\<exists>s. coverage_properties lib nc stride = Inr s \<and>
                 map_of s = (map_of (getncattrs nc))
                   (''time_coverage_start'' \<mapsto> a, ''time_coverage_end'' \<mapsto> b))) \<and>
         (\<forall>r. geojson lib nc = Inr r \<longrightarrow>
            (\<forall>f \<in> set (features_of r). coverage_properties lib nc stride = Inr (properties f)))"
  using assms coverage_properties_declared [of nc lib stride]
    coverage_properties_derived [of nc lib stride] geojson_properties [of nc stride lib]
  by blast

text \<open>
  The claim as stated fails where one key is declared and the other is absent: the
  declared start is replaced by the derived one.
\<close>

theorem coverage_layering_counterexample:
  "map_of (getncattrs ex_start_only) ''time_coverage_start'' = Some (PStr ''2013-07-19 00:00 UTC'') \<and>
   geojson example_lib ex_start_only =
     Inr (Feature \<lparr>fid = PNone, coordinates = [(10, 1)],
        properties = [(''time_coverage_start'', PStr ''1970-01-01 00:01 UTC''),
                      (''time_coverage_end'', PStr ''1970-01-01 00:01 UTC'')]\<rparr>)"
  by code_simp

theorem coverage_layering_witness:
  "coverage_properties example_lib ex_declared 1 = Inr (getncattrs ex_declared) \<and>
   coverage_properties example_lib ex_declared 1 =
     Inr (properties \<lparr>fid = PNone, coordinates = [(10, 1)],
          properties = [(''time_coverage_start'', PStr ''2013-07-19 00:00 UTC''),
                        (''time_coverage_end'', PStr ''2013-07-22 00:00 UTC'')]\<rparr>)"
proof -
  have s: "get_stride ex_declared = Inr 1" by code_simp
  have d: "map_of (getncattrs ex_declared) ''time_coverage_start'' \<noteq> None \<and>
           map_of (getncattrs ex_declared) ''time_coverage_end'' \<noteq> None" by code_simp
  have g: "geojson example_lib ex_declared = Inr (Feature \<lparr>fid = PNone, coordinates = [(10, 1)],
          properties = [(''time_coverage_start'', PStr ''2013-07-19 00:00 UTC''),
                        (''time_coverage_end'', PStr ''2013-07-22 00:00 UTC'')]\<rparr>)" by code_simp
  from coverage_layering [OF s, of example_lib] d g show ?thesis
    by (simp add: features_of_def getncattrs_def ex_declared_def)
qed

section \<open>The projected lines\<close>

lemma set_every: "set (every s xs) \<subseteq> set xs"
proof (induction s xs rule: every.induct)
  case (1 s)
  then show ?case by simp
next
  case (2 s x xs)
  have "set (drop (s - 1) xs) \<subseteq> set xs" by (rule set_drop_subset)
  with 2 show ?case by auto
qed

lemma mapE_Inr_all: "(\<And>x. x \<in> set xs \<Longrightarrow> f x = Inr (g x)) \<Longrightarrow> mapE f xs = Inr (map g xs)"
  by (induction xs) (simp_all add: bindE_Inr)

lemma bool_index_map:
  "bool_index (map f ts) (map p ts) = Inr (map f (filter p ts))"
proof -
  have "map fst (filter snd (zip (map f ts) (map p ts))) = map f (filter p ts)"
    by (induction ts) simp_all
  then show ?thesis by (simp add: bool_index_def)
qed

lemma rows_2d: "rows [n, T] xs = map (\<lambda>r. take T (drop (r * T) xs)) [0..<n]"
  by (simp add: rows_def)

lemma cell_2d:
  assumes "length xs = n * T" and "t < n" and "i < T"
  shows "take 1 (drop i (take T (drop (t * T) xs))) = [xs ! (t * T + i)]"
proof -
  have "t * T + T \<le> n * T"
    using assms(2) by (metis Suc_leI mult_Suc mult_le_mono1 add.commute)
  with assms have lt: "t * T + i < length xs" by simp
  have "drop i (take T (drop (t * T) xs)) = take (T - i) (drop (t * T + i) xs)"
    by (simp add: drop_take add.commute)
  moreover have "take 1 (take (T - i) (drop (t * T + i) xs)) = take 1 (drop (t * T + i) xs)"
    using assms(3) by (simp add: min_def)
  moreover have "take 1 (drop (t * T + i) xs) = [xs ! (t * T + i)]"
    using lt by (simp add: take_Suc_conv_app_nth)
  ultimately show ?thesis by simp
qed

lemma strided_column_2d:
  assumes len: "length xs = n * T" and i: "i < T"
  shows "strided_column stride i [n, T] xs = Inr (map (\<lambda>t. xs ! (t * T + i)) (every stride [0..<n]))"
proof -
  have "concat (map (\<lambda>row. take 1 (drop i row)) (map (\<lambda>r. take T (drop (r * T) xs)) ts)) =
        map (\<lambda>t. xs ! (t * T + i)) ts" if "set ts \<subseteq> {0..<n}" for ts
    using that
  proof (induction ts)
    case Nil
    then show ?case by simp
  next
    case (Cons t ts)
    then have "t < n" by simp
    from len this i have "take 1 (drop i (take T (drop (t * T) xs))) = [xs ! (t * T + i)]"
      by (rule cell_2d)
    with Cons show ?case by simp
  qed
  moreover have "set (every stride [0..<n]) \<subseteq> {0..<n}"
    using set_every [of stride "[0..<n]"] by simp
  ultimately show ?thesis
    using i by (simp add: strided_column_def rows_2d every_map)
qed


lemma getitem_vec:
  assumes "var_shape tv = [m]" and "i < m"
  shows "getitem tv i = Inr (if var_mask tv ! i then PMasked else PNum (var_data tv ! i))"
  using assms by (simp add: getitem_def)

lemma column_feature_2d:
  assumes lon: "variables nc ''lon'' = Some lonv" and lonshape: "var_shape lonv = [n, T]"
    and lonwf: "wf_variable lonv"
    and lat: "variables nc ''lat'' = Some latv" and latshape: "var_shape latv = [n, T]"
    and latwf: "wf_variable latv"
    and traj: "\<And>tv. variables nc ''trajectory'' = Some tv \<Longrightarrow> var_shape tv = [T]"
    and cov: "coverage_properties lib nc stride = Inr s"
    and i: "i < T"
  shows "column_feature lib nc stride i =
     Inr \<lparr>fid = (case variables nc ''trajectory'' of
                   None \<Rightarrow> PInt (int i)
                 | Some tv \<Rightarrow> if var_mask tv ! i then PMasked else PNum (var_data tv ! i)),
          coordinates = column_coords stride i lonv latv, properties = s\<rparr>"
proof -
  define ts where "ts = every stride [0..<n]"
  define L where "L = (\<lambda>t. var_data lonv ! (t * T + i))"
  define M where "M = (\<lambda>t. var_mask lonv ! (t * T + i))"
  define A where "A = (\<lambda>t. var_data latv ! (t * T + i))"
  define ts1 where "ts1 = filter (\<lambda>t. M t = False) ts"
  define ts2 where "ts2 = filter (\<lambda>t. L t < 1000) ts1"
  from lonwf lonshape have lenL: "length (var_data lonv) = n * T" and lenM: "length (var_mask lonv) = n * T"
    by (simp_all add: wf_variable_def)
  from latwf latshape have lenA: "length (var_data latv) = n * T"
    by (simp add: wf_variable_def)
  have m: "strided_column stride i (var_shape lonv) (var_mask lonv) = Inr (map M ts)"
    using strided_column_2d [OF lenM i] by (simp add: lonshape M_def ts_def)
  have l: "strided_column stride i (var_shape lonv) (var_data lonv) = Inr (map L ts)"
    using strided_column_2d [OF lenL i] by (simp add: lonshape L_def ts_def)
  have a: "strided_column stride i (var_shape latv) (var_data latv) = Inr (map A ts)"
    using strided_column_2d [OF lenA i] by (simp add: latshape A_def ts_def)
  have mask: "map (\<lambda>b. b = False) (map M ts) = map (\<lambda>t. M t = False) ts" by simp
  have lonm: "bool_index (map L ts) (map (\<lambda>t. M t = False) ts) = Inr (map L ts1)"
    unfolding ts1_def by (rule bool_index_map)
  have latm: "bool_index (map A ts) (map (\<lambda>t. M t = False) ts) = Inr (map A ts1)"
    unfolding ts1_def by (rule bool_index_map)
  have subbool: "map (\<lambda>x. x < 1000) (map L ts1) = map (\<lambda>t. L t < 1000) ts1" by simp
  have lons: "bool_index (map L ts1) (map (\<lambda>t. L t < 1000) ts1) = Inr (map L ts2)"
    unfolding ts2_def by (rule bool_index_map)
  have lats: "bool_index (map A ts1) (map (\<lambda>t. L t < 1000) ts1) = Inr (map A ts2)"
    unfolding ts2_def by (rule bool_index_map)
  have "ts2 = filter (\<lambda>t. \<not> M t \<and> L t < 1000) ts"
    by (simp add: ts2_def ts1_def conj_commute)
  then have coords: "zip (map L ts2) (map A ts2) = column_coords stride i lonv latv"
    by (simp add: column_coords_def lonshape zip_map_map zip_same_conv_map ts_def L_def M_def A_def)
  have body: "column_feature lib nc stride i =
     (case variables nc ''trajectory'' of
        Some tv \<Rightarrow> bindE (getitem tv i)
          (\<lambda>t. Inr \<lparr>fid = t, coordinates = column_coords stride i lonv latv, properties = s\<rparr>)
      | None \<Rightarrow> Inr \<lparr>fid = PInt (int i), coordinates = column_coords stride i lonv latv,
          properties = s\<rparr>)"
    unfolding column_feature_def
    by (simp only: getvar_def lon lat option.case m l a bindE_Inr Let_def mask lonm latm subbool
        lons lats coords cov)
  show ?thesis
  proof (cases "variables nc ''trajectory''")
    case None
    with body show ?thesis by simp
  next
    case (Some tv)
    with traj have "var_shape tv = [T]" by simp
    from getitem_vec [OF this i] body Some show ?thesis by (simp add: bindE_Inr)
  qed
qed

text \<open>
  The claim as stated fails where it takes the pairs to be sentinel-masked, which the
  specification explains as dropping a longitude whose magnitude is 1000 or more. The
  source tests \<^verbatim>\<open>lon[mask]<1000\<close>, a signed comparison: the longitude -1500 of
  this column, of magnitude 1500, stays in the coordinates.
\<close>

theorem geojson_columns_counterexample:
  "variables ex_grid_west ''lon'' =
     Some \<lparr>var_shape = [3, 1], var_data = [10, - 1500, 30],
       var_mask = [False, False, False], var_units = None\<rparr> \<and>
   (1000 :: real) \<le> \<bar>- 1500\<bar> \<and>
   geojson example_lib ex_grid_west =
     Inr (FeatureCollection
       [\<lparr>fid = PInt 0, coordinates = [(10, 1), (- 1500, 3), (30, 5)],
         properties = [(''time_coverage_start'', PStr ''2013-07-19 00:00 UTC''),
                       (''time_coverage_end'', PStr ''2013-07-22 00:00 UTC'')]\<rparr>])"
proof -
  have "geojson example_lib ex_grid_west =
     Inr (FeatureCollection
       [\<lparr>fid = PInt 0, coordinates = [(10, 1), (- 1500, 3), (30, 5)],
         properties = [(''time_coverage_start'', PStr ''2013-07-19 00:00 UTC''),
                       (''time_coverage_end'', PStr ''2013-07-22 00:00 UTC'')]\<rparr>])"
    by code_simp
  then show ?thesis by (simp add: ex_grid_west_def)
qed

text \<open>
  Claim C6, as amended. For a container whose \<^verbatim>\<open>lon\<close> and \<^verbatim>\<open>lat\<close> have \<open>n\<close>
  times and \<open>T\<close> trajectory columns, the projection builds a collection of exactly
  \<open>T\<close> features, one per column in order. The id of feature \<open>i\<close> is entry \<open>i\<close> of
  the \<^verbatim>\<open>trajectory\<close> variable when the container has one, and the column index
  \<open>i\<close> otherwise; its coordinates are the strided pairs of that column whose
  longitude is not masked and is below 1000 by signed comparison (so a longitude of
  -1000 or less is kept), each longitude with the latitude of the same time index.
  This is the collection as it is built, before it is rendered as JSON text.
\<close>

theorem geojson_columns:
  assumes lon: "variables nc ''lon'' = Some lonv" and lonshape: "var_shape lonv = [n, T]"
    and lonwf: "wf_variable lonv"
    and lat: "variables nc ''lat'' = Some latv" and latshape: "var_shape latv = [n, T]"
    and latwf: "wf_variable latv"
    and traj: "\<And>tv. variables nc ''trajectory'' = Some tv \<Longrightarrow> var_shape tv = [T]"
    and stride: "stride = (if 1000 < n then 200 else 1)"
    and cov: "coverage_properties lib nc stride = Inr s"
  shows "geojson lib nc =
     Inr (FeatureCollection
       (map (\<lambda>i. \<lparr>fid = (case variables nc ''trajectory'' of
                            None \<Rightarrow> PInt (int i)
                          | Some tv \<Rightarrow> if var_mask tv ! i then PMasked else PNum (var_data tv ! i)),
                   coordinates = column_coords stride i lonv latv, properties = s\<rparr>)
          [0..<T]))"
proof -
  let ?g = "\<lambda>i. \<lparr>fid = (case variables nc ''trajectory'' of
                       None \<Rightarrow> PInt (int i)
                     | Some tv \<Rightarrow> if var_mask tv ! i then PMasked else PNum (var_data tv ! i)),
              coordinates = column_coords stride i lonv latv, properties = s\<rparr>"
  have "column_feature lib nc stride i = Inr (?g i)" if "i \<in> set [0..<T]" for i
    using lon lonshape lonwf lat latshape latwf traj cov
  proof (rule column_feature_2d)
    show "i < T" using that by simp
  qed
  then have "mapE (column_feature lib nc stride) [0..<T] = Inr (map ?g [0..<T])"
    by (rule mapE_Inr_all)
  moreover have "get_stride nc = Inr stride"
    using get_stride_Some [OF lon] lonshape stride by simp
  ultimately show ?thesis
    using lon lonshape by (simp add: geojson_def getvar_def bindE_Inr)
qed

theorem geojson_columns_witness:
  "geojson example_lib ex_grid =
     Inr (FeatureCollection
       [\<lparr>fid = PNum 7, coordinates = [(10, 1), (30, 5)],
         properties = [(''time_coverage_start'', PStr ''2013-07-19 00:00 UTC''),
                       (''time_coverage_end'', PStr ''2013-07-22 00:00 UTC'')]\<rparr>,
        \<lparr>fid = PNum 8, coordinates = [(11, 2), (31, 6)],
         properties = [(''time_coverage_start'', PStr ''2013-07-19 00:00 UTC''),
                       (''time_coverage_end'', PStr ''2013-07-22 00:00 UTC'')]\<rparr>])"
proof -
  let ?lon = "\<lparr>var_shape = [3, 2], var_data = [10, 11, 20, 1500, 30, 31],
      var_mask = [False, False, True, False, False, False], var_units = None\<rparr>"
  let ?lat = "\<lparr>var_shape = [3, 2], var_data = [1, 2, 3, 4, 5, 6],
      var_mask = [False, False, False, False, False, False], var_units = None\<rparr>"
  have lon: "variables ex_grid ''lon'' = Some ?lon" and lat: "variables ex_grid ''lat'' = Some ?lat"
    by (simp_all add: ex_grid_def)
  have shapes: "var_shape ?lon = [3, 2]" "var_shape ?lat = [3, 2]" by simp_all
  have wf: "wf_variable ?lon" "wf_variable ?lat" by (simp_all add: wf_variable_def)
  have traj: "var_shape tv = [2]" if "variables ex_grid ''trajectory'' = Some tv" for tv
    using that by (auto simp: ex_grid_def vec_def)
  have stride: "(1::nat) = (if 1000 < (3::nat) then 200 else 1)" by simp
  have cov: "coverage_properties example_lib ex_grid 1 =
      Inr [(''time_coverage_start'', PStr ''2013-07-19 00:00 UTC''),
           (''time_coverage_end'', PStr ''2013-07-22 00:00 UTC'')]"
    by code_simp
  have fs: "map (\<lambda>i. \<lparr>fid = (case variables ex_grid ''trajectory'' of
                            None \<Rightarrow> PInt (int i)
                          | Some tv \<Rightarrow> if var_mask tv ! i then PMasked else PNum (var_data tv ! i)),
                   coordinates = column_coords 1 i ?lon ?lat,
                   properties = [(''time_coverage_start'', PStr ''2013-07-19 00:00 UTC''),
                                 (''time_coverage_end'', PStr ''2013-07-22 00:00 UTC'')]\<rparr>)
          [0..<2] =
       [\<lparr>fid = PNum 7, coordinates = [(10, 1), (30, 5)],
         properties = [(''time_coverage_start'', PStr ''2013-07-19 00:00 UTC''),
                       (''time_coverage_end'', PStr ''2013-07-22 00:00 UTC'')]\<rparr>,
        \<lparr>fid = PNum 8, coordinates = [(11, 2), (31, 6)],
         properties = [(''time_coverage_start'', PStr ''2013-07-19 00:00 UTC''),
                       (''time_coverage_end'', PStr ''2013-07-22 00:00 UTC'')]\<rparr>]"
    by code_simp
  from geojson_columns [OF lon shapes(1) wf(1) lat shapes(2) wf(2) traj stride cov]
  show ?thesis by (simp only: fs)
qed

text \<open>
  Claim C1 at the scenario of the specification, with latitudes 1, 2, 3, 4. The branch
  for a one-dimensional container filters the longitudes by \<^verbatim>\<open>lon < 1000\<close> and,
  separately, the latitudes by \<^verbatim>\<open>lat < 1000\<close>, and pairs what is left by position:
  the longitude 30 of time index 3 comes out with the latitude 3 of time index 2.
\<close>

theorem geojson_line_pairs_by_position:
  "geojson example_lib ex_line =
     Inr (Feature \<lparr>fid = PStr ''ru29'', coordinates = [(10, 1), (20, 2), (30, 3)],
        properties = [(''id'', PStr ''ru29''), (''time_coverage_start'', PNone),
                      (''time_coverage_end'', PNone)]\<rparr>)"
  by code_simp

section \<open>The steps of the writer\<close>

lemma steps_append:
  "steps (xs @ ys) nc = (case steps xs nc of (Some e, nc') \<Rightarrow> (Some e, nc') | (None, nc') \<Rightarrow> steps ys nc')"
  by (induction xs arbitrary: nc) (auto simp: then_step_def split: prod.splits option.splits)

lemma map_entry_append_new:
  "k \<notin> fst ` set xs \<Longrightarrow> AList.map_entry k f (xs @ [(k, v)]) = xs @ [(k, f v)]"
  by (induction xs) (auto simp: image_iff)

lemma dim_sizes_error: "dim_sizes ds xs = Inl e \<Longrightarrow> e = ValueError"
  by (induction xs arbitrary: e) (auto simp: bindE_def split: option.splits sum.splits)

lemma define_variable_built:
  assumes "dim_sizes (dims nc) (fst (snd (snd spec))) \<noteq> Inl ValueError"
    and "fst spec \<notin> fst ` set (vars nc)"
  shows "define_variable spec nc = (None, nc\<lparr>vars := vars nc @ [built (dims nc) spec]\<rparr>)"
proof -
  obtain name dt dn fill dat where spec: "spec = (name, dt, dn, fill, dat)"
    by (cases spec) auto
  from assms(1) spec obtain shp where shp: "dim_sizes (dims nc) dn = Inr shp"
    by (cases "dim_sizes (dims nc) dn") (auto dest: dim_sizes_error)
  show ?thesis
  proof (cases dat)
    case None
    with spec shp show ?thesis
      by (simp add: define_variable_def then_step_def createVariable_def built_def shape_of_def)
  next
    case (Some d)
    with spec shp assms(2) show ?thesis
      by (simp add: define_variable_def then_step_def createVariable_def built_def shape_of_def
          assign_def map_entry_append_new)
  qed
qed

lemma fst_built: "fst (built ds s) = fst s"
  by (cases s) (simp add: built_def)

lemma define_all:
  assumes "\<And>spec. spec \<in> set tab \<Longrightarrow> dim_sizes (dims nc) (fst (snd (snd spec))) \<noteq> Inl ValueError"
    and "distinct (map fst tab)" and "fst ` set tab \<inter> fst ` set (vars nc) = {}"
  shows "steps (map define_variable tab) nc = (None, nc\<lparr>vars := vars nc @ map (built (dims nc)) tab\<rparr>)"
  using assms
proof (induction tab arbitrary: nc)
  case Nil
  then show ?case by simp
next
  case (Cons spec tab)
  let ?nc = "nc\<lparr>vars := vars nc @ [built (dims nc) spec]\<rparr>"
  have one: "define_variable spec nc = (None, ?nc)"
  proof (rule define_variable_built)
    show "dim_sizes (dims nc) (fst (snd (snd spec))) \<noteq> Inl ValueError"
      using Cons.prems(1) [of spec] by simp
    show "fst spec \<notin> fst ` set (vars nc)" using Cons.prems(3) by auto
  qed
  have rest: "steps (map define_variable tab) ?nc =
      (None, ?nc\<lparr>vars := vars ?nc @ map (built (dims ?nc)) tab\<rparr>)"
  proof (rule Cons.IH)
    show "dim_sizes (dims ?nc) (fst (snd (snd s))) \<noteq> Inl ValueError" if "s \<in> set tab" for s
      using Cons.prems(1) [of s] that by simp
    show "distinct (map fst tab)" using Cons.prems(2) by simp
    show "fst ` set tab \<inter> fst ` set (vars ?nc) = {}"
      using Cons.prems(2,3) by (auto simp: fst_built image_iff)
  qed
  show ?case by (simp add: then_step_def one rest)
qed

lemma variable_table_names:
  "map fst (variable_table lib obs) =
     [''time'', ''time_qc'', ''time_uv'', ''trajectory'', ''segment_id'', ''profile_id'',
      ''depth'', ''depth_qc'', ''lat'', ''lat_qc'', ''lon'', ''lon_qc'', ''pressure'',
      ''pressure_qc'', ''conductivity'', ''conductivity_qc'', ''density'', ''density_qc'',
      ''salinity'', ''salinity_qc'', ''temperature'', ''temperature_qc'', ''lat_uv'', ''lon_uv'',
      ''u'', ''u_qc'', ''v'', ''v_qc'', ''platform'', ''instrument_ctd'']"
  by (simp add: variable_table_def Let_def)

lemma variable_table_distinct: "distinct (map fst (variable_table lib obs))"
  unfolding variable_table_names by simp

lemma dim_sizes_dims3:
  "dim_sizes (dims3 obs) [] = Inr []"
  "dim_sizes (dims3 obs) [''time''] = Inr [length (timedata obs)]"
  "dim_sizes (dims3 obs) [''time_uv''] = Inr [length (time_uvdata obs)]"
  "dim_sizes (dims3 obs) [''trajectory''] = Inr [length (trajectorydata obs)]"
  "dim_sizes (dims3 obs) [''time'', ''trajectory''] =
     Inr [length (timedata obs), length (trajectorydata obs)]"
  "dim_sizes (dims3 obs) [''time_uv'', ''trajectory''] =
     Inr [length (time_uvdata obs), length (trajectorydata obs)]"
  by (simp_all add: dims3_def bindE_def)

lemma dim_sizes_tuples:
  "dim_sizes (dims3 obs) (dim_tuple obs) =
     Inr (if length (trajectorydata obs) > 1
          then [length (timedata obs), length (trajectorydata obs)]
          else [length (timedata obs)])"
  "dim_sizes (dims3 obs) (uv_tuple obs) =
     Inr (if length (trajectorydata obs) > 1
          then [length (time_uvdata obs), length (trajectorydata obs)]
          else [length (time_uvdata obs)])"
  by (simp_all add: dim_tuple_def uv_tuple_def dim_sizes_dims3 del: dim_sizes.simps)

lemma shape_of_tuples:
  "shape_of (dims3 obs) (dim_tuple obs) =
     (if length (trajectorydata obs) > 1
      then [length (timedata obs), length (trajectorydata obs)] else [length (timedata obs)])"
  "shape_of (dims3 obs) (uv_tuple obs) =
     (if length (trajectorydata obs) > 1
      then [length (time_uvdata obs), length (trajectorydata obs)]
      else [length (time_uvdata obs)])"
  "shape_of (dims3 obs) [''time''] = [length (timedata obs)]"
  by (simp_all add: shape_of_def dim_sizes_tuples dim_sizes_dims3 del: dim_sizes.simps)

lemma variable_table_dims:
  "spec \<in> set (variable_table lib obs) \<Longrightarrow>
   dim_sizes (dims3 obs) (fst (snd (snd spec))) \<noteq> Inl ValueError"
  by (auto simp: variable_table_def Let_def dim_sizes_dims3 dim_sizes_tuples
      simp del: dim_sizes.simps)

lemma fold_setncattr:
  "fold (\<lambda>k. setncattr k (g k)) ks nc = nc\<lparr>gattrs := fold (\<lambda>k. AList.update k (g k)) ks (gattrs nc)\<rparr>"
  by (induction ks arbitrary: nc) (simp_all add: setncattr_def)

lemma amax_ok: "elems a \<noteq> [] \<Longrightarrow> \<exists>m. amax a = Inr m"
  by (cases "elems a") (simp_all add: amax_def)

lemma amin_ok: "elems a \<noteq> [] \<Longrightarrow> \<exists>m. amin a = Inr m"
  by (cases "elems a") (simp_all add: amin_def)

lemma first_ok: "xs \<noteq> [] \<Longrightarrow> first xs = Inr (hd xs)"
  by (cases xs) (simp_all add: first_def)

lemma final_ok: "xs \<noteq> [] \<Longrightarrow> final xs = Inr (last xs)"
  by (simp add: final_def)

lemma global_attributes_ok:
  assumes "elems (latdata obs) \<noteq> []" and "elems (londata obs) \<noteq> []"
    and "elems (depthdata obs) \<noteq> []" and "timedata obs \<noteq> []"
  shows "\<exists>ga. global_attributes lib now obs = Inr ga"
proof -
  from assms(1) obtain a b where "amax (latdata obs) = Inr a" "amin (latdata obs) = Inr b"
    using amax_ok amin_ok by blast
  moreover from assms(2) obtain c d where "amax (londata obs) = Inr c" "amin (londata obs) = Inr d"
    using amax_ok amin_ok by blast
  moreover from assms(3) obtain e f where "amax (depthdata obs) = Inr e" "amin (depthdata obs) = Inr f"
    using amax_ok amin_ok by blast
  moreover note first_ok [OF assms(4)] final_ok [OF assms(4)]
  ultimately show ?thesis
    unfolding global_attributes_def by (simp only: bindE_Inr) blast
qed

lemma check_shapes_ok: "writable obs \<Longrightarrow> check_shapes obs nc = (None, nc)"
  by (simp add: writable_def check_shapes_def)

lemma writer_0_0_writable:
  assumes "writable obs"
  shows "writer_0_0 lib now filename obs kwargs fs =
           (None, fs(filename \<mapsto> written lib now obs kwargs))"
proof -
  from assms obtain ga where ga: "global_attributes lib now obs = Inr ga"
    using global_attributes_ok [of obs lib now] by (auto simp: writable_def)
  let ?nc5 = "\<lparr>dims = dims3 obs, gattrs = written_attrs (merge_kwargs kwargs ga), vars = [],
               isopen = True\<rparr>"
  let ?first = "[check_shapes obs,
            createDimension ''time'' (length (timedata obs)),
            createDimension ''trajectory'' (length (trajectorydata obs)),
            createDimension ''time_uv'' (length (time_uvdata obs)),
            set_global_attributes lib now obs kwargs]"
  have s5: "steps ?first new_container = (None, ?nc5)"
    using assms
    by (simp add: then_step_def check_shapes_ok createDimension_def set_global_attributes_def ga
        Let_def fold_setncattr new_container_def dims3_def written_attrs_def)
  have "steps (map define_variable (variable_table lib obs)) ?nc5 =
      (None, ?nc5\<lparr>vars := vars ?nc5 @ map (built (dims ?nc5)) (variable_table lib obs)\<rparr>)"
  proof (rule define_all)
    show "dim_sizes (dims ?nc5) (fst (snd (snd spec))) \<noteq> Inl ValueError"
      if "spec \<in> set (variable_table lib obs)" for spec
      using variable_table_dims [OF that] by simp
    show "distinct (map fst (variable_table lib obs))" by (rule variable_table_distinct)
    show "fst ` set (variable_table lib obs) \<inter> fst ` set (vars ?nc5) = {}" by simp
  qed
  then have sv: "steps (map define_variable (variable_table lib obs)) ?nc5 =
      (None, ?nc5\<lparr>vars := map (built (dims3 obs)) (variable_table lib obs)\<rparr>)"
    by simp
  have "steps (?first @ map define_variable (variable_table lib obs) @ [close]) new_container =
      (None, written lib now obs kwargs)"
    by (simp only: steps_append s5 sv prod.case option.case)
      (simp add: then_step_def close_def written_def ga)
  then show ?thesis
    unfolding writer_0_0_def by simp
qed

lemma writer_0_0_assert:
  assumes "check_shapes obs new_container = (Some e, new_container)"
  shows "writer_0_0 lib now filename obs kwargs fs = (Some e, fs(filename \<mapsto> new_container))"
  using assms unfolding writer_0_0_def by (simp add: then_step_def)

section \<open>The length checks of the writer\<close>

lemma assert_lengths_None:
  "(\<And>a. a \<in> set vs \<Longrightarrow> \<exists>rest. ashape a = sz # rest) \<Longrightarrow> assert_lengths sz vs = None"
proof (induction vs)
  case Nil
  then show ?case by simp
next
  case (Cons v vs)
  from Cons.prems [of v] obtain rest where "ashape v = sz # rest" by auto
  moreover have "assert_lengths sz vs = None"
    by (rule Cons.IH) (simp add: Cons.prems)
  ultimately show ?case by simp
qed

lemma assert_lengths_axes:
  "(\<And>a. a \<in> set vs \<Longrightarrow> ashape a \<noteq> []) \<Longrightarrow>
   assert_lengths sz vs = (if \<forall>a \<in> set vs. hd (ashape a) = sz then None else Some AssertionError)"
proof (induction vs)
  case Nil
  then show ?case by simp
next
  case (Cons v vs)
  from Cons.prems [of v] obtain n rest where v: "ashape v = n # rest"
    by (cases "ashape v") auto
  have "assert_lengths sz vs =
      (if \<forall>a \<in> set vs. hd (ashape a) = sz then None else Some AssertionError)"
    by (rule Cons.IH) (simp add: Cons.prems)
  with v show ?case by auto
qed

lemma check_shapes_mismatch:
  assumes axes: "\<forall>a \<in> set (req_time_vars obs @ req_uv_vars obs). ashape a \<noteq> []"
    and bad: "(\<exists>a \<in> set (req_time_vars obs). hd (ashape a) \<noteq> length (timedata obs)) \<or>
              (\<exists>a \<in> set (req_uv_vars obs). hd (ashape a) \<noteq> length (time_uvdata obs))"
  shows "check_shapes obs nc = (Some AssertionError, nc)"
proof -
  have t: "assert_lengths (length (timedata obs)) (req_time_vars obs) =
      (if \<forall>a \<in> set (req_time_vars obs). hd (ashape a) = length (timedata obs)
       then None else Some AssertionError)"
    using axes by (intro assert_lengths_axes) simp
  have u: "assert_lengths (length (time_uvdata obs)) (req_uv_vars obs) =
      (if \<forall>a \<in> set (req_uv_vars obs). hd (ashape a) = length (time_uvdata obs)
       then None else Some AssertionError)"
    using axes by (intro assert_lengths_axes) simp
  from bad show ?thesis
    unfolding check_shapes_def t u by auto
qed

text \<open>
  Claim C2, as amended. The arrays the writer checks are the eight required time
  arrays, the quality-control arrays supplied for those eight, and the four required
  time_uv arrays. When each of them has a first axis and one of them disagrees in
  length with its dimension, the writer raises AssertionError before it creates any
  dimension, attribute or variable. It has opened the destination for writing by then:
  the destination holds a new, empty, open container, whatever it held before.
\<close>

theorem writer_0_0_shape_mismatch:
  assumes "\<forall>a \<in> set (req_time_vars obs @ req_uv_vars obs). ashape a \<noteq> []"
    and "(\<exists>a \<in> set (req_time_vars obs). hd (ashape a) \<noteq> length (timedata obs)) \<or>
         (\<exists>a \<in> set (req_uv_vars obs). hd (ashape a) \<noteq> length (time_uvdata obs))"
  shows "writer_0_0 lib now filename obs kwargs fs =
           (Some AssertionError, fs(filename \<mapsto> new_container)) \<and>
         dims new_container = [] \<and> gattrs new_container = [] \<and> vars new_container = []"
  using check_shapes_mismatch [OF assms] writer_0_0_assert [of obs AssertionError]
  by (simp add: new_container_def)

lemma ex_obs_writable: "writable ex_obs"
  by (simp add: writable_def ex_obs_def req_time_vars_def req_uv_vars_def quality_vars_def grid_def)

lemma ex_obs_bad_segment_writable: "writable ex_obs_bad_segment"
  by (simp add: writable_def ex_obs_bad_segment_def ex_obs_def req_time_vars_def req_uv_vars_def
      quality_vars_def grid_def)

text \<open>
  The claim as stated fails. A latitude array of the wrong length makes the writer
  raise, but the container the destination held is gone: an empty one has taken its
  place. A segment array of the wrong length is not among the arrays checked, and the
  writer does not raise AssertionError for it.
\<close>

theorem writer_0_0_shape_mismatch_counterexample:
  "hd (ashape (latdata ex_obs_bad_lat)) \<noteq> length (timedata ex_obs_bad_lat) \<and>
   fst (writer_0_0 example_lib ''now'' ''out.nc'' ex_obs_bad_lat [] ex_files) =
     Some AssertionError \<and>
   ex_files ''out.nc'' = Some ex_prior \<and>
   snd (writer_0_0 example_lib ''now'' ''out.nc'' ex_obs_bad_lat [] ex_files) ''out.nc'' =
     Some new_container \<and>
   new_container \<noteq> ex_prior \<and>
   hd (ashape (segment_iddata ex_obs_bad_segment)) \<noteq> length (timedata ex_obs_bad_segment) \<and>
   fst (writer_0_0 example_lib ''now'' ''out.nc'' ex_obs_bad_segment [] ex_files) \<noteq>
     Some AssertionError"
proof -
  have "check_shapes ex_obs_bad_lat new_container = (Some AssertionError, new_container)"
    by (simp add: check_shapes_def ex_obs_bad_lat_def ex_obs_def req_time_vars_def
        req_uv_vars_def quality_vars_def grid_def)
  then have "writer_0_0 example_lib ''now'' ''out.nc'' ex_obs_bad_lat [] ex_files =
      (Some AssertionError, ex_files(''out.nc'' \<mapsto> new_container))"
    by (rule writer_0_0_assert)
  moreover have "fst (writer_0_0 example_lib ''now'' ''out.nc'' ex_obs_bad_segment [] ex_files) = None"
    using writer_0_0_writable [OF ex_obs_bad_segment_writable] by simp
  ultimately show ?thesis
    by (simp add: ex_obs_bad_lat_def ex_obs_bad_segment_def ex_obs_def grid_def ex_files_def
        new_container_def ex_prior_def)
qed

theorem writer_0_0_shape_mismatch_witness:
  "writer_0_0 example_lib ''now'' ''out.nc'' ex_obs_bad_lat [] ex_files =
     (Some AssertionError, ex_files(''out.nc'' \<mapsto> new_container))"
proof -
  have a: "\<forall>a \<in> set (req_time_vars ex_obs_bad_lat @ req_uv_vars ex_obs_bad_lat). ashape a \<noteq> []"
    by (simp add: ex_obs_bad_lat_def ex_obs_def req_time_vars_def req_uv_vars_def
        quality_vars_def grid_def)
  have b: "(\<exists>a \<in> set (req_time_vars ex_obs_bad_lat).
              hd (ashape a) \<noteq> length (timedata ex_obs_bad_lat)) \<or>
           (\<exists>a \<in> set (req_uv_vars ex_obs_bad_lat).
              hd (ashape a) \<noteq> length (time_uvdata ex_obs_bad_lat))"
    by (simp add: ex_obs_bad_lat_def ex_obs_def req_time_vars_def req_uv_vars_def
        quality_vars_def grid_def)
  from writer_0_0_shape_mismatch [OF a b] show ?thesis by simp
qed

lemma writable_first_axes:
  assumes "\<forall>a \<in> set (req_time_vars obs). \<exists>rest. ashape a = length (timedata obs) # rest"
    and "\<forall>a \<in> set (req_uv_vars obs). \<exists>rest. ashape a = length (time_uvdata obs) # rest"
    and "elems (latdata obs) \<noteq> []" and "elems (londata obs) \<noteq> []"
    and "elems (depthdata obs) \<noteq> []" and "timedata obs \<noteq> []"
  shows "writable obs"
proof -
  have "assert_lengths (length (timedata obs)) (req_time_vars obs) = None"
    using assms(1) by (intro assert_lengths_None) simp
  moreover have "assert_lengths (length (time_uvdata obs)) (req_uv_vars obs) = None"
    using assms(2) by (intro assert_lengths_None) simp
  ultimately show ?thesis using assms(3-6) by (simp add: writable_def)
qed

text \<open>
  Claim C10. The checks of the writer read the first axis of each array and nothing
  else. Whenever every checked array has the length of its dimension along its first
  axis (and the arrays whose extrema are recorded have elements, and there is a first
  time), the writer raises nothing, creates the three dimensions and closes the
  container at the destination, whatever the further axes of the arrays are.
\<close>

theorem writer_0_0_second_axis_unchecked:
  assumes "\<forall>a \<in> set (req_time_vars obs). \<exists>rest. ashape a = length (timedata obs) # rest"
    and "\<forall>a \<in> set (req_uv_vars obs). \<exists>rest. ashape a = length (time_uvdata obs) # rest"
    and "elems (latdata obs) \<noteq> []" and "elems (londata obs) \<noteq> []"
    and "elems (depthdata obs) \<noteq> []" and "timedata obs \<noteq> []"
  shows "\<exists>nc. writer_0_0 lib now filename obs kwargs fs = (None, fs(filename \<mapsto> nc)) \<and>
           \<not> isopen nc \<and>
           dims nc = [(''time'', length (timedata obs)),
                      (''trajectory'', length (trajectorydata obs)),
                      (''time_uv'', length (time_uvdata obs))]"
proof -
  have "writable obs" using assms by (rule writable_first_axes)
  then have "writer_0_0 lib now filename obs kwargs fs =
      (None, fs(filename \<mapsto> written lib now obs kwargs))"
    by (rule writer_0_0_writable)
  moreover have "\<not> isopen (written lib now obs kwargs)"
    and "dims (written lib now obs kwargs) =
      [(''time'', length (timedata obs)), (''trajectory'', length (trajectorydata obs)),
       (''time_uv'', length (time_uvdata obs))]"
    by (simp_all add: written_def dims3_def)
  ultimately show ?thesis by blast
qed

theorem writer_0_0_second_axis_unchecked_witness:
  "ashape (depthdata ex_obs_narrow) = [2, 1] \<and> length (trajectorydata ex_obs_narrow) = 2 \<and>
   (\<exists>nc. writer_0_0 example_lib ''now'' ''out.nc'' ex_obs_narrow [] ex_files =
            (None, ex_files(''out.nc'' \<mapsto> nc)) \<and>
          \<not> isopen nc \<and>
          dims nc = [(''time'', 2), (''trajectory'', 2), (''time_uv'', 1)])"
proof -
  have a: "\<forall>a \<in> set (req_time_vars ex_obs_narrow).
             \<exists>rest. ashape a = length (timedata ex_obs_narrow) # rest"
    and b: "\<forall>a \<in> set (req_uv_vars ex_obs_narrow).
             \<exists>rest. ashape a = length (time_uvdata ex_obs_narrow) # rest"
    and c: "elems (latdata ex_obs_narrow) \<noteq> []" "elems (londata ex_obs_narrow) \<noteq> []"
      "elems (depthdata ex_obs_narrow) \<noteq> []" "timedata ex_obs_narrow \<noteq> []"
    by (simp_all add: ex_obs_narrow_def req_time_vars_def req_uv_vars_def quality_vars_def grid_def)
  have d: "length (timedata ex_obs_narrow) = 2" "length (trajectorydata ex_obs_narrow) = 2"
    "length (time_uvdata ex_obs_narrow) = 1" "ashape (depthdata ex_obs_narrow) = [2, 1]"
    by (simp_all add: ex_obs_narrow_def grid_def)
  from writer_0_0_second_axis_unchecked [OF a b c, of example_lib "''now''" "''out.nc''" "[]" ex_files]
  show ?thesis by (simp only: d)
qed

section \<open>The variables the writer creates\<close>

lemma built_pair: "built ds spec = (fst spec, snd (built ds spec))"
  using fst_built [of ds spec] by (cases "built ds spec") simp

lemma vars_written_lookup:
  assumes "spec \<in> set (variable_table lib obs)"
  shows "map_of (vars (written lib now obs kwargs)) (fst spec) = Some (snd (built (dims3 obs) spec))"
proof -
  have "map fst (map (built (dims3 obs)) (variable_table lib obs)) = map fst (variable_table lib obs)"
    by (simp add: fst_built)
  then have "distinct (map fst (map (built (dims3 obs)) (variable_table lib obs)))"
    by (simp only: variable_table_distinct)
  moreover have "(fst spec, snd (built (dims3 obs) spec)) \<in> set (map (built (dims3 obs)) (variable_table lib obs))"
    using assms built_pair [of "dims3 obs" spec] by (simp add: image_iff) metis
  ultimately show ?thesis
    by (simp add: written_def del: set_map)
qed

















lemma time_class_rows:
  "\<forall>name \<in> set time_class.
     \<exists>dt fill dat. (name, dt, dim_tuple obs, fill, dat) \<in> set (variable_table lib obs)"
  by (simp add: time_class_def variable_table_def Let_def)

lemma time_uv_class_rows:
  "\<forall>name \<in> set time_uv_class.
     \<exists>dt fill dat. (name, dt, uv_tuple obs, fill, dat) \<in> set (variable_table lib obs)"
  by (simp add: time_uv_class_def variable_table_def Let_def)

lemma coordinate_rows:
  "\<forall>name \<in> set [''time'', ''time_qc''].
     \<exists>dt fill dat. (name, dt, [''time''], fill, dat) \<in> set (variable_table lib obs)"
  by (simp add: variable_table_def Let_def)

lemma built_layout:
  "snd (built ds (name, dt, dn, fill, dat)) = v \<Longrightarrow>
   dimensions v = dn \<and> shape v = shape_of ds dn"
  by (auto simp: built_def)

lemma written_layout:
  assumes "(name, dt, dn, fill, dat) \<in> set (variable_table lib obs)"
  shows "\<exists>v. map_of (vars (written lib now obs kwargs)) name = Some v \<and>
           dimensions v = dn \<and> shape v = shape_of (dims3 obs) dn"
  using vars_written_lookup [OF assms, of now kwargs] built_layout [OF refl, of "dims3 obs" name dt dn fill dat]
  by simp


lemma ex_obs2_writable: "writable ex_obs2"
  by (simp add: writable_def ex_obs2_def req_time_vars_def req_uv_vars_def quality_vars_def grid_def)

text \<open>
  Claim C5. In the container a successful write commits, every variable of the time
  class (those the source creates over \<^verbatim>\<open>dim_tuple\<close>) has the dimensions (time) and
  the shape (L) when the trajectory count is 1, and the dimensions (time, trajectory)
  and the shape (L, T) when the trajectory count T exceeds 1; the variables of the
  time_uv class follow the same rule against the time_uv dimension. The coordinate
  variable \<^verbatim>\<open>time\<close> and its flags \<^verbatim>\<open>time_qc\<close> are created over (time) alone in
  both layouts.
\<close>

theorem writer_0_0_layout:
  assumes "writable obs"
  shows "\<exists>nc. writer_0_0 lib now filename obs kwargs fs = (None, fs(filename \<mapsto> nc)) \<and>
     (\<forall>name \<in> set time_class. \<exists>v. map_of (vars nc) name = Some v \<and>
        dimensions v = (if length (trajectorydata obs) > 1
                        then [''time'', ''trajectory''] else [''time'']) \<and>
        shape v = (if length (trajectorydata obs) > 1
                   then [length (timedata obs), length (trajectorydata obs)]
                   else [length (timedata obs)])) \<and>
     (\<forall>name \<in> set time_uv_class. \<exists>v. map_of (vars nc) name = Some v \<and>
        dimensions v = (if length (trajectorydata obs) > 1
                        then [''time_uv'', ''trajectory''] else [''time_uv'']) \<and>
        shape v = (if length (trajectorydata obs) > 1
                   then [length (time_uvdata obs), length (trajectorydata obs)]
                   else [length (time_uvdata obs)])) \<and>
     (\<forall>name \<in> set [''time'', ''time_qc'']. \<exists>v. map_of (vars nc) name = Some v \<and>
        dimensions v = [''time''] \<and> shape v = [length (timedata obs)])"
proof -
  let ?nc = "written lib now obs kwargs"
  have w: "writer_0_0 lib now filename obs kwargs fs = (None, fs(filename \<mapsto> ?nc))"
    using assms by (rule writer_0_0_writable)
  have t: "\<exists>v. map_of (vars ?nc) name = Some v \<and> dimensions v = dim_tuple obs \<and>
        shape v = shape_of (dims3 obs) (dim_tuple obs)" if "name \<in> set time_class" for name
  proof -
    from time_class_rows [where obs = obs and lib = lib] that obtain dt fill dat
      where "(name, dt, dim_tuple obs, fill, dat) \<in> set (variable_table lib obs)" by blast
    then show ?thesis by (rule written_layout)
  qed
  have u: "\<exists>v. map_of (vars ?nc) name = Some v \<and> dimensions v = uv_tuple obs \<and>
        shape v = shape_of (dims3 obs) (uv_tuple obs)" if "name \<in> set time_uv_class" for name
  proof -
    from time_uv_class_rows [where obs = obs and lib = lib] that obtain dt fill dat
      where "(name, dt, uv_tuple obs, fill, dat) \<in> set (variable_table lib obs)" by blast
    then show ?thesis by (rule written_layout)
  qed
  have c: "\<exists>v. map_of (vars ?nc) name = Some v \<and> dimensions v = [''time''] \<and>
        shape v = shape_of (dims3 obs) [''time'']" if "name \<in> set [''time'', ''time_qc'']" for name
  proof -
    from coordinate_rows [where obs = obs and lib = lib] that obtain dt fill dat
      where "(name, dt, [''time''], fill, dat) \<in> set (variable_table lib obs)" by blast
    then show ?thesis by (rule written_layout)
  qed
  show ?thesis
  proof (intro exI [of _ ?nc] conjI ballI)
    show "writer_0_0 lib now filename obs kwargs fs = (None, fs(filename \<mapsto> ?nc))" by (rule w)
  next
    fix name assume "name \<in> set time_class"
    from t [OF this, unfolded shape_of_tuples] show "\<exists>v. map_of (vars ?nc) name = Some v \<and>
        dimensions v = (if length (trajectorydata obs) > 1
                        then [''time'', ''trajectory''] else [''time'']) \<and>
        shape v = (if length (trajectorydata obs) > 1
                   then [length (timedata obs), length (trajectorydata obs)]
                   else [length (timedata obs)])"
      by (simp only: dim_tuple_def)
  next
    fix name assume "name \<in> set time_uv_class"
    from u [OF this, unfolded shape_of_tuples] show "\<exists>v. map_of (vars ?nc) name = Some v \<and>
        dimensions v = (if length (trajectorydata obs) > 1
                        then [''time_uv'', ''trajectory''] else [''time_uv'']) \<and>
        shape v = (if length (trajectorydata obs) > 1
                   then [length (time_uvdata obs), length (trajectorydata obs)]
                   else [length (time_uvdata obs)])"
      by (simp only: uv_tuple_def)
  next
    fix name assume "name \<in> set [''time'', ''time_qc'']"
    from c [OF this] show "\<exists>v. map_of (vars ?nc) name = Some v \<and>
        dimensions v = [''time''] \<and> shape v = [length (timedata obs)]"
      by (simp only: shape_of_tuples)
  qed
qed

theorem writer_0_0_layout_witness:
  "(\<exists>nc. writer_0_0 example_lib ''now'' ''out.nc'' ex_obs [] ex_files =
           (None, ex_files(''out.nc'' \<mapsto> nc)) \<and>
         (\<exists>v. map_of (vars nc) ''depth'' = Some v \<and> dimensions v = [''time''] \<and> shape v = [2])) \<and>
   (\<exists>nc. writer_0_0 example_lib ''now'' ''out.nc'' ex_obs2 [] ex_files =
           (None, ex_files(''out.nc'' \<mapsto> nc)) \<and>
         (\<exists>v. map_of (vars nc) ''depth'' = Some v \<and>
              dimensions v = [''time'', ''trajectory''] \<and> shape v = [2, 2]))"
proof -
  have d: "''depth'' \<in> set time_class" by (simp add: time_class_def)
  have l1: "length (trajectorydata ex_obs) = 1" "length (timedata ex_obs) = 2"
    by (simp_all add: ex_obs_def)
  have l2: "length (trajectorydata ex_obs2) = 2" "length (timedata ex_obs2) = 2"
    by (simp_all add: ex_obs2_def)
  from writer_0_0_layout [OF ex_obs_writable, of example_lib "''now''" "''out.nc''" "[]" ex_files]
  obtain nc1 where "writer_0_0 example_lib ''now'' ''out.nc'' ex_obs [] ex_files =
           (None, ex_files(''out.nc'' \<mapsto> nc1))"
    and "\<forall>name \<in> set time_class. \<exists>v. map_of (vars nc1) name = Some v \<and>
        dimensions v = (if length (trajectorydata ex_obs) > 1
                        then [''time'', ''trajectory''] else [''time'']) \<and>
        shape v = (if length (trajectorydata ex_obs) > 1
                   then [length (timedata ex_obs), length (trajectorydata ex_obs)]
                   else [length (timedata ex_obs)])"
    by blast
  then have one: "\<exists>nc. writer_0_0 example_lib ''now'' ''out.nc'' ex_obs [] ex_files =
           (None, ex_files(''out.nc'' \<mapsto> nc)) \<and>
         (\<exists>v. map_of (vars nc) ''depth'' = Some v \<and> dimensions v = [''time''] \<and> shape v = [2])"
    using d by (intro exI [of _ nc1]) (simp add: l1)
  from writer_0_0_layout [OF ex_obs2_writable, of example_lib "''now''" "''out.nc''" "[]" ex_files]
  obtain nc2 where "writer_0_0 example_lib ''now'' ''out.nc'' ex_obs2 [] ex_files =
           (None, ex_files(''out.nc'' \<mapsto> nc2))"
    and "\<forall>name \<in> set time_class. \<exists>v. map_of (vars nc2) name = Some v \<and>
        dimensions v = (if length (trajectorydata ex_obs2) > 1
                        then [''time'', ''trajectory''] else [''time'']) \<and>
        shape v = (if length (trajectorydata ex_obs2) > 1
                   then [length (timedata ex_obs2), length (trajectorydata ex_obs2)]
                   else [length (timedata ex_obs2)])"
    by blast
  then have two: "\<exists>nc. writer_0_0 example_lib ''now'' ''out.nc'' ex_obs2 [] ex_files =
           (None, ex_files(''out.nc'' \<mapsto> nc)) \<and>
         (\<exists>v. map_of (vars nc) ''depth'' = Some v \<and>
              dimensions v = [''time'', ''trajectory''] \<and> shape v = [2, 2])"
    using d by (intro exI [of _ nc2]) (simp add: l2)
  from one two show ?thesis by (rule conjI)
qed

section \<open>The coverage attributes the writer sets\<close>

lemma map_of_fold_update:
  "map_of (fold (\<lambda>k. AList.update k (g k)) ks al) k =
     (if k \<in> set ks then Some (g k) else map_of al k)"
  by (induction ks arbitrary: al) (auto simp: update_conv')

lemma map_of_written_attrs: "map_of (written_attrs ga) k = map_of ga k"
proof (cases "map_of ga k")
  case None
  then have "k \<notin> fst ` set ga" by (simp add: map_of_eq_None_iff)
  with None show ?thesis by (simp add: written_attrs_def map_of_fold_update)
next
  case (Some v)
  then have "k \<in> fst ` set ga" by (metis map_of_eq_None_iff option.distinct(1))
  with Some show ?thesis by (simp add: written_attrs_def map_of_fold_update dict_get_def)
qed

lemma map_of_merge_kwargs:
  "k \<notin> fst ` set kwargs \<Longrightarrow> map_of (merge_kwargs kwargs ga) k = map_of ga k"
  unfolding merge_kwargs_def
  by (induction kwargs arbitrary: ga) (auto simp: update_conv')

lemma global_attributes_coverage:
  assumes "global_attributes lib now obs = Inr ga"
  shows "map_of ga ''time_coverage_end'' = Some (PStr (strftime lib (hd (timedata obs)))) \<and>
         map_of ga ''time_coverage_start'' = Some (PStr (strftime lib (last (timedata obs))))"
proof -
  from assms obtain a b c d e f t1 t2 where
    "first (timedata obs) = Inr t1" and "final (timedata obs) = Inr t2"
    and ga: "map_of ga ''time_coverage_end'' = Some (PStr (strftime lib t1))"
      "map_of ga ''time_coverage_start'' = Some (PStr (strftime lib t2))"
    unfolding global_attributes_def bindE_def
    by (auto split: sum.splits)
  then show ?thesis
    by (auto simp: first_def final_def split: list.splits if_splits)
qed


text \<open>
  Claim C9. When the caller's overrides name neither coverage key, a successful write
  commits a container whose attribute \<^verbatim>\<open>time_coverage_end\<close> is the formatted first
  element of \<^verbatim>\<open>timedata\<close> and whose attribute \<^verbatim>\<open>time_coverage_start\<close> is the
  formatted last element: the start and the end come from opposite ends of the series.
\<close>

theorem writer_0_0_coverage_attributes:
  assumes "writable obs"
    and "''time_coverage_start'' \<notin> fst ` set kwargs"
    and "''time_coverage_end'' \<notin> fst ` set kwargs"
  shows "\<exists>nc. writer_0_0 lib now filename obs kwargs fs = (None, fs(filename \<mapsto> nc)) \<and>
     map_of (gattrs nc) ''time_coverage_end'' = Some (PStr (strftime lib (hd (timedata obs)))) \<and>
     map_of (gattrs nc) ''time_coverage_start'' =
       Some (PStr (strftime lib (last (timedata obs))))"
proof -
  let ?nc = "written lib now obs kwargs"
  have w: "writer_0_0 lib now filename obs kwargs fs = (None, fs(filename \<mapsto> ?nc))"
    using assms(1) by (rule writer_0_0_writable)
  from assms(1) obtain ga where ga: "global_attributes lib now obs = Inr ga"
    using global_attributes_ok [of obs lib now] by (auto simp: writable_def)
  then have g: "gattrs ?nc = written_attrs (merge_kwargs kwargs ga)"
    by (simp add: written_def)
  have "map_of (gattrs ?nc) ''time_coverage_end'' = map_of ga ''time_coverage_end''"
    and "map_of (gattrs ?nc) ''time_coverage_start'' = map_of ga ''time_coverage_start''"
    using map_of_merge_kwargs [OF assms(2), of ga] map_of_merge_kwargs [OF assms(3), of ga]
    by (simp_all only: g map_of_written_attrs)
  with global_attributes_coverage [OF ga] w show ?thesis
    by (intro exI [of _ ?nc]) simp
qed

theorem writer_0_0_coverage_attributes_witness:
  "timedata ex_obs = [0, 60] \<and>
   (\<exists>nc. writer_0_0 example_lib ''now'' ''out.nc'' ex_obs [] ex_files =
           (None, ex_files(''out.nc'' \<mapsto> nc)) \<and>
         map_of (gattrs nc) ''time_coverage_end'' = Some (PStr ''1970-01-01 00:00 UTC'') \<and>
         map_of (gattrs nc) ''time_coverage_start'' = Some (PStr ''1970-01-01 00:01 UTC''))"
proof -
  have k: "''time_coverage_start'' \<notin> fst ` set ([] :: (string \<times> pyval) list)"
    "''time_coverage_end'' \<notin> fst ` set ([] :: (string \<times> pyval) list)" by simp_all
  have t: "timedata ex_obs = [0, 60]" by (simp add: ex_obs_def)
  have f: "strftime example_lib (hd (timedata ex_obs)) = ''1970-01-01 00:00 UTC''"
    "strftime example_lib (last (timedata ex_obs)) = ''1970-01-01 00:01 UTC''"
    by (simp_all add: t example_lib_def)
  note h = writer_0_0_coverage_attributes [OF ex_obs_writable k,
      of example_lib "''now''" "''out.nc''" ex_files]
  from h [unfolded f] t show ?thesis by (rule conjI [rotated])
qed

end
